theory Spec2Isabelle
  imports Complex_Main "HOL-Library.Char_ord" "HOL-Library.List_Lexorder"
begin

section \<open>Strings and characters\<close>

text \<open>
  JavaScript strings are modelled as \<open>string\<close> (lists of 8-bit characters); the
  patterns and keyword tables of the program name ASCII characters only. Case mapping
  (\<open>toUpperCase\<close>, \<open>toLowerCase\<close>, SQLite's \<open>UPPER\<close>, the \<open>i\<close> flag of a pattern)
  acts on the ASCII letters and leaves every other character alone. Numbers are exact
  rationals; where the program can produce NaN the model has an \<open>option\<close>.
\<close>

definition lowers :: string where
  "lowers = ''abcdefghijklmnopqrstuvwxyz''"

definition uppers :: string where
  "uppers = ''ABCDEFGHIJKLMNOPQRSTUVWXYZ''"

definition digits :: string where
  "digits = ''0123456789''"

definition isDigit :: "char \<Rightarrow> bool" where
  "isDigit c = (c \<in> set digits)"

definition isAlpha :: "char \<Rightarrow> bool" where
  "isAlpha c = (c \<in> set lowers \<or> c \<in> set uppers)"

definition isWord :: "char \<Rightarrow> bool" where
  \<comment> \<open>the class \<open>\w\<close>\<close>
  "isWord c = (isAlpha c \<or> isDigit c \<or> c = CHR ''_'')"

definition isSpace :: "char \<Rightarrow> bool" where
  \<comment> \<open>the class \<open>\s\<close>, also what \<open>trim\<close> removes: space, TAB, LF, VT, FF, CR, NBSP\<close>
  "isSpace c = (c \<in> set [CHR '' '', CHR 0x09, CHR 0x0A, CHR 0x0B, CHR 0x0C, CHR 0x0D, CHR 0xA0])"

definition upperChar :: "char \<Rightarrow> char" where
  "upperChar c = (case map_of (zip lowers uppers) c of Some u \<Rightarrow> u | None \<Rightarrow> c)"

definition lowerChar :: "char \<Rightarrow> char" where
  "lowerChar c = (case map_of (zip uppers lowers) c of Some l \<Rightarrow> l | None \<Rightarrow> c)"

definition toUpperCase :: "string \<Rightarrow> string" where
  "toUpperCase s = map upperChar s"

definition toLowerCase :: "string \<Rightarrow> string" where
  "toLowerCase s = map lowerChar s"

fun startsWith :: "string \<Rightarrow> string \<Rightarrow> bool" where
  "startsWith s [] = True"
| "startsWith [] (c # cs) = False"
| "startsWith (x # xs) (c # cs) = (x = c \<and> startsWith xs cs)"

fun strIncludes :: "string \<Rightarrow> string \<Rightarrow> bool" where
  \<comment> \<open>\<open>s.includes(sub)\<close>\<close>
  "strIncludes [] sub = (sub = [])"
| "strIncludes (x # xs) sub = (startsWith (x # xs) sub \<or> strIncludes xs sub)"

definition trim :: "string \<Rightarrow> string" where
  "trim s = rev (dropWhile isSpace (rev (dropWhile isSpace s)))"

section \<open>Regular expressions\<close>

text \<open>
  The patterns of the program are written in the following syntax and run by a
  backtracking matcher with the priorities of the JavaScript engine: alternatives are
  tried left to right, a greedy repetition takes the longest run first, a lazy one the
  shortest, and the search takes the leftmost starting position. A repetition is always
  over a character class in the program's patterns. \<open>Grp\<close> is a capturing group; the
  captures are listed in the order in which the groups close (no pattern of the program
  nests capturing groups). The matcher carries the character before the current
  position, for \<open>^\<close> and \<open>\b\<close>.
\<close>

datatype re =
    Eps
  | Sym "char \<Rightarrow> bool"
  | Seq re re
  | Alt re re
  | Rep bool nat "nat option" "char \<Rightarrow> bool"
  | Grp re
  | Bol
  | Eol
  | Wb

fun repGreedy :: "(char \<Rightarrow> bool) \<Rightarrow> nat \<Rightarrow> nat option \<Rightarrow> char option \<Rightarrow> string
    \<Rightarrow> (char option \<Rightarrow> string \<Rightarrow> 'r option) \<Rightarrow> 'r option" where
  "repGreedy P n mx p [] k = (if n = 0 then k p [] else None)"
| "repGreedy P n mx p (c # s) k =
     (if P c \<and> mx \<noteq> Some 0 then
        (case repGreedy P (n - 1) (map_option (\<lambda>m. m - 1) mx) (Some c) s k of
           Some r \<Rightarrow> Some r
         | None \<Rightarrow> if n = 0 then k p (c # s) else None)
      else if n = 0 then k p (c # s) else None)"

fun repLazy :: "(char \<Rightarrow> bool) \<Rightarrow> nat \<Rightarrow> nat option \<Rightarrow> char option \<Rightarrow> string
    \<Rightarrow> (char option \<Rightarrow> string \<Rightarrow> 'r option) \<Rightarrow> 'r option" where
  "repLazy P n mx p [] k = (if n = 0 then k p [] else None)"
| "repLazy P n mx p (c # s) k =
     (case (if n = 0 then k p (c # s) else None) of
        Some r \<Rightarrow> Some r
      | None \<Rightarrow>
          if P c \<and> mx \<noteq> Some 0
          then repLazy P (n - 1) (map_option (\<lambda>m. m - 1) mx) (Some c) s k
          else None)"

definition wordBefore :: "char option \<Rightarrow> bool" where
  "wordBefore p = (case p of None \<Rightarrow> False | Some c \<Rightarrow> isWord c)"

definition wordAfter :: "string \<Rightarrow> bool" where
  "wordAfter s = (case s of [] \<Rightarrow> False | c # _ \<Rightarrow> isWord c)"

fun rmatch :: "re \<Rightarrow> char option \<Rightarrow> string \<Rightarrow> string list
    \<Rightarrow> (char option \<Rightarrow> string \<Rightarrow> string list \<Rightarrow> 'r option) \<Rightarrow> 'r option" where
  "rmatch Eps p s cs k = k p s cs"
| "rmatch (Sym P) p s cs k =
     (case s of [] \<Rightarrow> None | c # s' \<Rightarrow> if P c then k (Some c) s' cs else None)"
| "rmatch (Seq a b) p s cs k = rmatch a p s cs (\<lambda>p' s' cs'. rmatch b p' s' cs' k)"
| "rmatch (Alt a b) p s cs k =
     (case rmatch a p s cs k of Some r \<Rightarrow> Some r | None \<Rightarrow> rmatch b p s cs k)"
| "rmatch (Rep greedy n mx P) p s cs k =
     (if greedy then repGreedy P n mx p s (\<lambda>p' s'. k p' s' cs)
      else repLazy P n mx p s (\<lambda>p' s'. k p' s' cs))"
| "rmatch (Grp a) p s cs k =
     rmatch a p s cs (\<lambda>p' s' cs'. k p' s' (cs' @ [take (length s - length s') s]))"
| "rmatch Bol p s cs k = (if p = None then k p s cs else None)"
| "rmatch Eol p s cs k = (if s = [] then k p s cs else None)"
| "rmatch Wb p s cs k = (if wordBefore p \<noteq> wordAfter s then k p s cs else None)"

text \<open>A match at the current position: the rest of the text after it and the captures.\<close>

definition matchAt :: "re \<Rightarrow> char option \<Rightarrow> string \<Rightarrow> (string \<times> string list) option" where
  "matchAt r p s = rmatch r p s [] (\<lambda>p' s' cs. Some (s', cs))"

record rmatch_result =
  before :: string
  whole :: string
  groups :: "string list"
  after :: string

fun search :: "re \<Rightarrow> char option \<Rightarrow> string \<Rightarrow> string \<Rightarrow> rmatch_result option" where
  "search r p pre [] =
     (case matchAt r p [] of
        Some (s', cs) \<Rightarrow> Some \<lparr>before = pre, whole = [], groups = cs, after = []\<rparr>
      | None \<Rightarrow> None)"
| "search r p pre (c # s) =
     (case matchAt r p (c # s) of
        Some (s', cs) \<Rightarrow>
          Some \<lparr>before = pre, whole = take (length (c # s) - length s') (c # s),
                groups = cs, after = s'\<rparr>
      | None \<Rightarrow> search r (Some c) (pre @ [c]) s)"

definition exec :: "re \<Rightarrow> string \<Rightarrow> rmatch_result option" where
  \<comment> \<open>\<open>s.match(r)\<close> for a pattern without the \<open>g\<close> flag\<close>
  "exec r s = search r None [] s"

definition test :: "re \<Rightarrow> string \<Rightarrow> bool" where
  "test r s = (exec r s \<noteq> None)"

definition chr :: "char \<Rightarrow> re" where
  "chr c = Sym (\<lambda>x. x = c)"

definition chri :: "char \<Rightarrow> re" where
  \<comment> \<open>a literal character under the \<open>i\<close> flag\<close>
  "chri c = Sym (\<lambda>x. x = lowerChar c \<or> x = upperChar c)"

fun lit :: "string \<Rightarrow> re" where
  "lit [] = Eps"
| "lit [c] = chr c"
| "lit (c # cs) = Seq (chr c) (lit cs)"

fun liti :: "string \<Rightarrow> re" where
  "liti [] = Eps"
| "liti [c] = chri c"
| "liti (c # cs) = Seq (chri c) (liti cs)"

fun alts :: "re list \<Rightarrow> re" where
  "alts [] = Sym (\<lambda>x. False)"
| "alts [r] = r"
| "alts (r # rs) = Alt r (alts rs)"

fun seqs :: "re list \<Rightarrow> re" where
  "seqs [] = Eps"
| "seqs [r] = r"
| "seqs (r # rs) = Seq r (seqs rs)"

definition opt :: "re \<Rightarrow> re" where
  "opt r = Alt r Eps"

definition many0 :: "(char \<Rightarrow> bool) \<Rightarrow> re" where
  "many0 P = Rep True 0 None P"

definition many1 :: "(char \<Rightarrow> bool) \<Rightarrow> re" where
  "many1 P = Rep True 1 None P"

definition anyOf :: "string \<Rightarrow> char \<Rightarrow> bool" where
  "anyOf cs c = (c \<in> set cs)"

section \<open>SmartSmsProcessor: validation\<close>

record SmsValidationResult =
  isValid :: bool
  isTransaction :: bool
  confidence :: rat
  reason :: string

definition digitOrComma :: "char \<Rightarrow> bool" where
  "digitOrComma c = (isDigit c \<or> c = CHR '','')"

definition BANK_INDICATORS :: "re list" where
  "BANK_INDICATORS =
    [ seqs [liti ''Rs'', opt (chr CHR ''.''), many0 isSpace, many1 digitOrComma],
      seqs [liti ''INR'', many0 isSpace, many1 digitOrComma],
      alts [liti ''debited'', liti ''credited'', liti ''spent'', liti ''received'',
            seqs [liti ''auto'', opt (chr CHR ''-''), liti ''debit''],
            seqs [liti ''auto'', opt (chr CHR ''-''), liti ''pay''],
            liti ''subscription'', liti ''membership'', liti ''paid'', liti ''sent'',
            liti ''transfer'', liti ''withdrawn'', liti ''withdraw'', liti ''payment'',
            seqs [liti ''Dr'', opt (chr CHR ''.'')], seqs [liti ''Cr'', opt (chr CHR ''.'')]],
      alts [liti ''A/c'', liti ''account'', liti ''card'', liti ''bank'', liti ''wallet''],
      alts [liti ''UPI'', liti ''IMPS'', liti ''NEFT'', liti ''RTGS'',
            seqs [liti ''Ref'', opt (Sym isSpace), liti ''No''], liti ''Reference''],
      alts [liti ''transaction'', liti ''txn''] ]"

definition BANK_SENDER_IDS :: "re list" where
  "BANK_SENDER_IDS =
    [ alts [liti ''BOBSMS'', liti ''BOBTXN'', liti ''BOBMS''],
      alts [liti ''HDFCBK'', liti ''HDFCBN''],
      alts [liti ''SBIN'', liti ''SBIUPI'', liti ''SBIMPS''],
      liti ''ICICIB'',
      alts [liti ''AXISBK'', liti ''AXIS''],
      liti ''KOTAK'',
      alts [liti ''PNBSMS'', liti ''PNB''],
      alts [liti ''IDFCFB'', liti ''IDFC''],
      liti ''YESBNK'',
      liti ''CANARA'',
      liti ''UNIONB'',
      liti ''MAHABK'',
      liti ''RBL'',
      liti ''INDZB'',
      liti ''CBSSMS'' ]"

definition SPAM_INDICATORS :: "re list" where
  "SPAM_INDICATORS =
    [ alts [liti ''click here'', liti ''tap here'', liti ''http''],
      alts [liti ''win'', liti ''won'', liti ''lottery'', liti ''prize''],
      alts [liti ''offer expires'', liti ''limited time''],
      alts [liti ''verify your'', liti ''confirm your''],
      liti ''suspicious activity'',
      Alt (Grp (seqs [Rep True 4 (Some 8) isDigit, many1 isSpace, liti ''is'', many1 isSpace,
                      liti ''your'', many1 isSpace, liti ''OTP'']))
          (Grp (seqs [liti ''OTP'', many1 isSpace, liti ''for''])) ]"

definition promotionalSender :: re where
  \<comment> \<open>\<open>/-[P]($|[A-Z])/i\<close>\<close>
  "promotionalSender =
     seqs [chr CHR ''-'', chri CHR ''P'', Grp (Alt Eol (Sym isAlpha))]"

definition isKnownBankSender :: "string \<Rightarrow> bool" where
  \<comment> \<open>\<open>BANK_SENDER_IDS.some(regex => regex.test(sender))\<close>\<close>
  "isKnownBankSender sender = (\<exists>r \<in> set BANK_SENDER_IDS. test r sender)"

definition countMatches :: "re list \<Rightarrow> string \<Rightarrow> nat" where
  "countMatches ps sms = length (filter (\<lambda>r. test r sms) ps)"

definition joinReasons :: "string list \<Rightarrow> string" where
  \<comment> \<open>\<open>reasons.join('; ')\<close>\<close>
  "joinReasons rs = (case rs of [] \<Rightarrow> [] | r # rest \<Rightarrow> foldl (\<lambda>a b. a @ ''; '' @ b) r rest)"

definition validateTransactionSms :: "string \<Rightarrow> string \<Rightarrow> SmsValidationResult" where
  "validateTransactionSms sms sender =
    (if test promotionalSender sender then
       \<lparr>isValid = False, isTransaction = False, confidence = 0,
        reason = ''Ignored Promotional Sender (-P)''\<rparr>
     else
       let isKnownBank = isKnownBankSender sender;
           confidence0 = (if isKnownBank then 1 / 2 else 0);
           reasons0 = (if isKnownBank then [''Known Bank Sender''] else []);
           bankMatches = countMatches BANK_INDICATORS sms;
           confidence1 = (if 2 \<le> bankMatches then confidence0 + 1 / 2 else confidence0);
           reasons1 = (if 2 \<le> bankMatches then reasons0 @ [''Contains transaction keywords'']
                       else reasons0);
           spamMatches = countMatches SPAM_INDICATORS sms
       in if 0 < spamMatches then
            \<lparr>isValid = False, isTransaction = False, confidence = 0,
             reason = ''Contains spam keywords''\<rparr>
          else
            let threshold = (if isKnownBank then 4 / 10 else 8 / 10)
            in \<lparr>isValid = (threshold \<le> confidence1), isTransaction = (2 \<le> bankMatches),
                confidence = confidence1, reason = joinReasons reasons1\<rparr>)"

section \<open>Text utilities used by the parser\<close>

fun replaceAll :: "re \<Rightarrow> string \<Rightarrow> char option \<Rightarrow> nat \<Rightarrow> string \<Rightarrow> string" where
  \<comment> \<open>\<open>s.replace(r, rep)\<close> with the \<open>g\<close> flag; \<open>skip\<close> counts the characters of the
      current match still to be dropped\<close>
  "replaceAll r rep p skip [] = (if skip = 0 \<and> matchAt r p [] \<noteq> None then rep else [])"
| "replaceAll r rep p skip (c # s) =
     (if 0 < skip then replaceAll r rep (Some c) (skip - 1) s
      else case matchAt r p (c # s) of
             None \<Rightarrow> c # replaceAll r rep (Some c) 0 s
           | Some (s', cs) \<Rightarrow>
               (if length s' = length (c # s) then rep @ c # replaceAll r rep (Some c) 0 s
                else rep @ replaceAll r rep (Some c) (length s - length s') s))"

definition replaceFirst :: "re \<Rightarrow> string \<Rightarrow> string \<Rightarrow> string" where
  \<comment> \<open>\<open>s.replace(r, rep)\<close> without the \<open>g\<close> flag\<close>
  "replaceFirst r rep s =
     (case exec r s of None \<Rightarrow> s | Some m \<Rightarrow> before m @ rep @ after m)"

fun splitRe :: "re \<Rightarrow> char option \<Rightarrow> nat \<Rightarrow> string \<Rightarrow> string \<Rightarrow> string list" where
  \<comment> \<open>\<open>s.split(r)\<close> for a separator pattern that has no capturing group and never
      matches the empty string, as the separators of the program\<close>
  "splitRe r p skip acc [] = [acc]"
| "splitRe r p skip acc (c # s) =
     (if 0 < skip then splitRe r (Some c) (skip - 1) acc s
      else case matchAt r p (c # s) of
             None \<Rightarrow> splitRe r (Some c) 0 (acc @ [c]) s
           | Some (s', cs) \<Rightarrow>
               (if length s' = length (c # s) then splitRe r (Some c) 0 (acc @ [c]) s
                else acc # splitRe r (Some c) (length s - length s') [] s))"

fun splitOn :: "char \<Rightarrow> string \<Rightarrow> string \<Rightarrow> string list" where
  \<comment> \<open>\<open>s.split(sep)\<close> for a one-character separator string\<close>
  "splitOn sep acc [] = [acc]"
| "splitOn sep acc (c # s) =
     (if c = sep then acc # splitOn sep [] s else splitOn sep (acc @ [c]) s)"

fun joinWith :: "string \<Rightarrow> string list \<Rightarrow> string" where
  "joinWith sep [] = []"
| "joinWith sep [w] = w"
| "joinWith sep (w # ws) = w @ sep @ joinWith sep ws"

definition capitalize :: "string \<Rightarrow> string" where
  \<comment> \<open>\<open>word.charAt(0).toUpperCase() + word.slice(1).toLowerCase()\<close>\<close>
  "capitalize w = (case w of [] \<Rightarrow> [] | c # cs \<Rightarrow> upperChar c # toLowerCase cs)"

definition digitVal :: "char \<Rightarrow> int" where
  "digitVal c = of_char c - 48"

definition digitsValue :: "string \<Rightarrow> int" where
  "digitsValue ds = foldl (\<lambda>a c. 10 * a + digitVal c) 0 ds"

definition parseFloat :: "string \<Rightarrow> rat option" where
  \<comment> \<open>on the strings \<open>parseAmount\<close> passes (digits and full stops only): the integer part,
      then a fraction after the first full stop; NaN (\<open>None\<close>) when neither has a digit\<close>
  "parseFloat s =
     (let ip = takeWhile isDigit s;
          rest = dropWhile isDigit s;
          fp = (case rest of [] \<Rightarrow> [] | c # r \<Rightarrow> if c = CHR ''.'' then takeWhile isDigit r else [])
      in if ip = [] \<and> fp = [] then None
         else Some (of_int (digitsValue ip) + of_int (digitsValue fp) / 10 ^ length fp))"

function showInt :: "int \<Rightarrow> string" where
  \<comment> \<open>the decimal digits of a number that is not negative\<close>
  "showInt n =
     (if n < 10 then [digits ! nat n] else showInt (n div 10) @ [digits ! nat (n mod 10)])"
  by pat_completeness auto
termination
  by (relation "measure nat") auto

definition padLeft :: "nat \<Rightarrow> string \<Rightarrow> string" where
  \<comment> \<open>\<open>padStart(n, '0')\<close>\<close>
  "padLeft n s = replicate (n - length s) CHR ''0'' @ s"

section \<open>Dates\<close>

text \<open>
  A \<open>Date\<close> is its time value, the milliseconds since 1970-01-01T00:00Z, in the proleptic
  Gregorian calendar of ECMAScript. The local time zone is a fixed offset \<open>tz\<close>, in
  minutes east of UTC. \<open>Date_parse\<close> reads the date-only ISO form \<open>YYYY-MM-DD\<close> of a
  calendar date that exists, as UTC midnight; every other string is an invalid date here.
\<close>

datatype error = RangeError | ConstraintFailed

definition msPerDay :: int where
  "msPerDay = 86400000"

definition daysFromCivil :: "int \<Rightarrow> int \<Rightarrow> int \<Rightarrow> int" where
  \<comment> \<open>day number of year \<open>y\<close>, month \<open>m\<close> in 1..12, day \<open>d\<close>\<close>
  "daysFromCivil y m d =
     (let y' = (if m \<le> 2 then y - 1 else y);
          era = y' div 400;
          yoe = y' - era * 400;
          doy = (153 * (if 2 < m then m - 3 else m + 9) + 2) div 5 + d - 1;
          doe = yoe * 365 + yoe div 4 - yoe div 100 + doy
      in era * 146097 + doe - 719468)"

definition civilFromDays :: "int \<Rightarrow> int \<times> int \<times> int" where
  "civilFromDays n =
     (let z = n + 719468;
          era = z div 146097;
          doe = z - era * 146097;
          yoe = (doe - doe div 1460 + doe div 36524 - doe div 146096) div 365;
          doy = doe - (365 * yoe + yoe div 4 - yoe div 100);
          mp = (5 * doy + 2) div 153;
          d = doy - (153 * mp + 2) div 5 + 1;
          m = (if mp < 10 then mp + 3 else mp - 9);
          y = yoe + era * 400
      in (if m \<le> 2 then y + 1 else y, m, d))"

definition MakeDay :: "int \<Rightarrow> int \<Rightarrow> int \<Rightarrow> int" where
  \<comment> \<open>month \<open>m\<close> counted from 0 and of any size, day \<open>d\<close> of any size\<close>
  "MakeDay y m d = daysFromCivil (y + m div 12) (m mod 12 + 1) 1 + d - 1"

definition isLeap :: "int \<Rightarrow> bool" where
  "isLeap y = (y mod 4 = 0 \<and> (y mod 100 \<noteq> 0 \<or> y mod 400 = 0))"

definition daysInMonth :: "int \<Rightarrow> int \<Rightarrow> int" where
  "daysInMonth y m =
     (if m = 2 then (if isLeap y then 29 else 28)
      else if m = 4 \<or> m = 6 \<or> m = 9 \<or> m = 11 then 30 else 31)"

definition validTime :: "int \<Rightarrow> bool" where
  "validTime t = (\<bar>t\<bar> \<le> 8640000000000000)"

definition isoYear :: "int \<Rightarrow> string" where
  "isoYear y =
     (if 0 \<le> y \<and> y \<le> 9999 then padLeft 4 (showInt y)
      else (if y < 0 then ''-'' else ''+'') @ padLeft 6 (showInt \<bar>y\<bar>))"

definition isoDate :: "int \<Rightarrow> string" where
  \<comment> \<open>\<open>d.toISOString().split('T')[0]\<close> of a valid time value\<close>
  "isoDate t =
     (case civilFromDays (t div msPerDay) of
        (y, m, d) \<Rightarrow> isoYear y @ ''-'' @ padLeft 2 (showInt m) @ ''-'' @ padLeft 2 (showInt d))"

definition toISODate :: "int \<Rightarrow> error + string" where
  \<comment> \<open>\<open>toISOString\<close> throws a RangeError on an invalid date\<close>
  "toISODate t = (if validTime t then Inr (isoDate t) else Inl RangeError)"

definition Date_parse :: "string \<Rightarrow> int option" where
  "Date_parse s =
     (case s of
        [y1, y2, y3, y4, h1, m1, m2, h2, d1, d2] \<Rightarrow>
          if list_all isDigit [y1, y2, y3, y4, m1, m2, d1, d2] \<and> h1 = CHR ''-'' \<and> h2 = CHR ''-''
          then let y = digitsValue [y1, y2, y3, y4];
                   m = digitsValue [m1, m2];
                   d = digitsValue [d1, d2]
               in if 1 \<le> m \<and> m \<le> 12 \<and> 1 \<le> d \<and> d \<le> daysInMonth y m
                  then Some (daysFromCivil y m d * msPerDay) else None
          else None
      | _ \<Rightarrow> None)"

section \<open>ExpenseParser\<close>

datatype txtype = Debit | Credit

record ParsedExpense =
  amount :: "rat option"
  merchant :: string
  type :: txtype
  date :: string
  accountLast4 :: "string option"

definition COMMON_MERCHANTS :: "(string \<times> string) list" where
  "COMMON_MERCHANTS =
    [ (''ZOMATO'', ''Zomato''), (''SWIGGY'', ''Swiggy''), (''UBER'', ''Uber''), (''OLA'', ''Ola''),
      (''AMAZON'', ''Amazon''), (''FLIPKART'', ''Flipkart''), (''MYNTRA'', ''Myntra''),
      (''NETFLIX'', ''Netflix''), (''SPOTIFY'', ''Spotify''), (''APPLE'', ''Apple''),
      (''GOOGLE'', ''Google''), (''JIO'', ''Jio''), (''AIRTEL'', ''Airtel''), (''VI'', ''Vi''),
      (''PAYTM'', ''Paytm''), (''PHONEPE'', ''PhonePe''), (''RAZORPAY'', ''Razorpay''),
      (''DMART'', ''DMart''), (''STARBUCKS'', ''Starbucks''), (''MCDONALDS'', ''McDonalds''),
      (''KFC'', ''KFC''), (''DOMINOS'', ''Dominos''), (''PIZZA'', ''Pizza Hut''),
      (''IRCTC'', ''IRCTC''), (''INDIGO'', ''IndiGo''), (''AIRINDIA'', ''Air India''),
      (''DTH'', ''DTH Recharge''), (''BESCOM'', ''Electricity Bill''), (''BWSSB'', ''Water Bill''),
      (''ACT'', ''ACT Fibernet'') ]"

definition maskChar :: "char \<Rightarrow> bool" where
  \<comment> \<open>\<open>[X*]\<close> under the \<open>i\<close> flag\<close>
  "maskChar c = (c = CHR ''X'' \<or> c = CHR ''x'' \<or> c = CHR ''*'')"

definition accountSeparator :: "char \<Rightarrow> bool" where
  \<comment> \<open>\<open>[:\-\s]\<close>\<close>
  "accountSeparator c = (c = CHR '':'' \<or> c = CHR ''-'' \<or> isSpace c)"

definition ACCOUNT_PATTERNS :: "re list" where
  "ACCOUNT_PATTERNS =
    [ seqs [alts [liti ''A/c'', liti ''Acct'', liti ''Account''], many1 isSpace,
            opt (alts [liti ''no.'', liti ''ending'']), many0 isSpace,
            opt (Sym accountSeparator), many0 isSpace, many1 maskChar,
            Grp (Rep True 3 (Some 4) isDigit)],
      seqs [liti ''Card'', many1 isSpace,
            opt (alts [liti ''no.'', liti ''ending'']), many0 isSpace,
            opt (Sym accountSeparator), many0 isSpace, many1 maskChar,
            Grp (Rep True 3 (Some 4) isDigit)],
      seqs [alts [liti ''A/c'', liti ''Acct'', liti ''Card''], many1 isSpace, many1 maskChar,
            Grp (Rep True 3 (Some 4) isDigit)] ]"

definition stripCommas :: "string \<Rightarrow> string" where
  \<comment> \<open>\<open>amountStr.replace(/,/g, '')\<close>\<close>
  "stripCommas s = replaceAll (chr CHR '','') [] None 0 s"

definition parseAmount :: "string \<Rightarrow> rat option" where
  "parseAmount amountStr = parseFloat (stripCommas amountStr)"

definition creditVerbs :: re where
  "creditVerbs =
     seqs [Wb, Grp (alts [lit ''credited'', lit ''received'', lit ''deposited'',
                          seqs [lit ''added'', many1 isSpace, lit ''to''],
                          lit ''refund'', lit ''inward'', lit ''reversal'']), Wb]"

definition debitVerbs :: re where
  "debitVerbs =
     seqs [Wb, Grp (alts [lit ''debited'', lit ''spent'', lit ''paid'', lit ''sent'',
                          lit ''withdrawn'', lit ''withdraw'',
                          seqs [lit ''transfer'', many1 isSpace, lit ''to''],
                          lit ''purchase'']), Wb]"

definition getTransactionType :: "string \<Rightarrow> txtype" where
  "getTransactionType smsOrType =
     (let lower = toLowerCase smsOrType in
      if strIncludes smsOrType ''Dr.'' \<and> strIncludes smsOrType ''Cr.'' then Debit
      else if strIncludes smsOrType ''Dr.'' then Debit
      else if strIncludes smsOrType ''Cr.'' then Credit
      else if test creditVerbs lower then Credit
      else if test debitVerbs lower then Debit
      else if strIncludes lower ''credited'' \<or> strIncludes lower ''deposit'' then Credit
      else Debit)"

definition datePattern :: re where
  \<comment> \<open>\<open>/(\d{2})[-\/](\d{2})[-\/](\d{2,4})/\<close>\<close>
  "datePattern =
     seqs [Grp (Rep True 2 (Some 2) isDigit), Sym (anyOf ''-/''),
           Grp (Rep True 2 (Some 2) isDigit), Sym (anyOf ''-/''),
           Grp (Rep True 2 (Some 4) isDigit)]"

definition extractDate :: "int \<Rightarrow> string \<Rightarrow> string" where
  \<comment> \<open>\<open>now\<close> is the time value of \<open>new Date()\<close>, the clock of the device\<close>
  "extractDate now sms =
     (case exec datePattern sms of
        Some m \<Rightarrow>
          (case groups m of
             [g1, g2, g3] \<Rightarrow>
               let year0 = digitsValue g3;
                   year = (if year0 < 100 then year0 + 2000 else year0)
               in showInt year @ ''-'' @ g2 @ ''-'' @ g1
           | _ \<Rightarrow> isoDate now)
      | None \<Rightarrow> isoDate now)"

fun firstGroup :: "re list \<Rightarrow> string \<Rightarrow> string option" where
  "firstGroup [] sms = None"
| "firstGroup (r # rs) sms =
     (case exec r sms of
        Some m \<Rightarrow> Some (groups m ! 0)
      | None \<Rightarrow> firstGroup rs sms)"

definition extractAccountInfo :: "string \<Rightarrow> string option" where
  \<comment> \<open>the \<open>last4\<close> of the result; \<open>bankName\<close> is never set\<close>
  "extractAccountInfo sms = firstGroup ACCOUNT_PATTERNS sms"

definition bankingPrefix :: re where
  \<comment> \<open>\<open>/^(VPS|IPS|REV|UPI|IMPS|NEFT|RTGS)[\/-]?/i\<close>\<close>
  "bankingPrefix =
     seqs [Bol, Grp (alts [liti ''VPS'', liti ''IPS'', liti ''REV'', liti ''UPI'', liti ''IMPS'',
                           liti ''NEFT'', liti ''RTGS'']), opt (Sym (anyOf ''/-''))]"

fun knowledgeBase :: "(string \<times> string) list \<Rightarrow> string \<Rightarrow> string option" where
  "knowledgeBase [] name = None"
| "knowledgeBase ((key, displayName) # rest) name =
     (if strIncludes (toUpperCase name) key then Some displayName else knowledgeBase rest name)"

definition cleanMerchantName :: "string \<Rightarrow> string" where
  "cleanMerchantName raw =
     (let name = trim raw in
      if strIncludes name ''@'' \<and> \<not> strIncludes name '' '' then name
      else case knowledgeBase COMMON_MERCHANTS name of
        Some displayName \<Rightarrow> displayName
      | None \<Rightarrow>
          let name1 = replaceFirst bankingPrefix [] name;
              name2 = replaceFirst (Rep True 6 None isDigit) [] name1;
              name3 = replaceAll (Sym (anyOf ''/-'')) '' '' None 0 name2;
              name4 = replaceAll (many1 isSpace) '' '' None 0 name3;
              name5 = trim name4;
              cleaned = joinWith '' '' (map capitalize (splitOn CHR '' '' [] name5))
          in if 30 < length cleaned
                \<or> test (seqs [Bol, lit ''On '', Rep True 4 (Some 4) isDigit]) cleaned
             then ''Unknown Merchant'' else cleaned)"

definition transactionVerbs :: re where
  "transactionVerbs =
     alts [liti ''credited'', liti ''debited'', liti ''paid'', liti ''spent'', liti ''received'',
           liti ''withdrawn'', liti ''dr.'', liti ''cr.'', liti ''transfer'', liti ''sent'',
           liti ''payment'']"

definition isValidTransaction :: "string \<Rightarrow> bool" where
  "isValidTransaction sms = (test (many1 isDigit) sms \<and> test transactionVerbs sms)"

definition fractionPart :: re where
  \<comment> \<open>\<open>\.\d{2}\<close>\<close>
  "fractionPart = Seq (chr CHR ''.'') (Rep True 2 (Some 2) isDigit)"

definition amountPattern :: re where
  \<comment> \<open>\<open>/(?:Rs\.?|INR)\s*([\d,]+(?:\.\d{2})?)/i\<close>\<close>
  "amountPattern =
     seqs [Alt (Seq (liti ''Rs'') (opt (chr CHR ''.''))) (liti ''INR''), many0 isSpace,
           Grp (Seq (many1 digitOrComma) (opt fractionPart))]"

definition handleChar :: "char \<Rightarrow> bool" where
  \<comment> \<open>\<open>[a-zA-Z0-9.\-_]\<close>\<close>
  "handleChar c = (isAlpha c \<or> isDigit c \<or> c = CHR ''.'' \<or> c = CHR ''-'' \<or> c = CHR ''_'')"

definition upiPattern :: re where
  \<comment> \<open>\<open>/([a-zA-Z0-9.\-_]+@[a-zA-Z]+)/\<close>\<close>
  "upiPattern = Grp (seqs [many1 handleChar, chr CHR ''@'', many1 isAlpha])"

definition merchantPattern :: re where
  "merchantPattern =
     seqs [alts [liti ''to'', liti ''at'', liti ''via'', liti ''spent on'', liti ''paid to'',
                 liti ''sent to'', liti ''by'', liti ''from''],
           many1 isSpace,
           Grp (Rep False 1 None (\<lambda>c. \<not> anyOf '',.;'' c)),
           alts [seqs [many1 isSpace,
                       alts [liti ''on'', liti ''Ref'', liti ''Avl'', liti ''Bal'', liti ''end'',
                             liti ''txn'']],
                 Eol, chr CHR ''.'']]"

definition orElse :: "string \<Rightarrow> string \<Rightarrow> string" where
  \<comment> \<open>\<open>a || b\<close> on strings: the empty string is falsy\<close>
  "orElse a b = (if a = [] then b else a)"

definition parseExpenseWithRegex ::
    "(string \<Rightarrow> string) \<Rightarrow> int \<Rightarrow> string \<Rightarrow> bool \<Rightarrow> int option \<Rightarrow> error + ParsedExpense option" where
  \<comment> \<open>\<open>nfkc\<close> is \<open>String.prototype.normalize('NFKC')\<close>, \<open>now\<close> the clock; \<open>Inr None\<close> is the
      \<open>null\<close> result, \<open>Inl\<close> an exception\<close>
  "parseExpenseWithRegex nfkc now rawSms isKnownBank smsTimestamp =
     (let sms = nfkc rawSms in
      if \<not> isValidTransaction sms then Inr None
      else
        let last4 = extractAccountInfo sms in
        if last4 = None \<and> \<not> isKnownBank then Inr None
        else case exec amountPattern sms of
          None \<Rightarrow> Inr None
        | Some amountMatch \<Rightarrow>
            let amount = parseAmount (groups amountMatch ! 0);
                type = getTransactionType sms;
                upiMatch = exec upiPattern sms;
                merchant0 =
                  (case upiMatch of
                     Some u \<Rightarrow>
                       if \<not> strIncludes (groups u ! 0) ''.com'' then groups u ! 0
                       else (case exec merchantPattern sms of
                               Some m \<Rightarrow> groups m ! 0 | None \<Rightarrow> ''General Expense'')
                   | None \<Rightarrow>
                       (case exec merchantPattern sms of
                          Some m \<Rightarrow> groups m ! 0 | None \<Rightarrow> ''General Expense''));
                merchant = orElse (cleanMerchantName merchant0) ''General Expense'';
                dateStr =
                  (case smsTimestamp of
                     None \<Rightarrow> Inr (extractDate now sms)
                   | Some t \<Rightarrow> if t \<noteq> 0 then toISODate t else Inr (extractDate now sms))
            in case dateStr of
                 Inl e \<Rightarrow> Inl e
               | Inr d \<Rightarrow>
                   Inr (Some \<lparr>amount = amount, merchant = merchant, type = type, date = d,
                              accountLast4 = last4\<rparr>))"

section \<open>Database\<close>

text \<open>
  A table is the list of its rows in rowid order; a query without \<open>ORDER BY\<close> returns the
  rows in that order. A nullable column is an \<open>option\<close>. The columns \<open>created_at\<close>, and
  \<open>icon\<close>, \<open>color\<close>, \<open>budget_limit\<close> of categories and \<open>balance\<close> of accounts, are
  read by none of the functions below and are left out. \<open>AUTOINCREMENT\<close> gives a new row
  the successor of the largest rowid the table ever had.
\<close>

record transaction_row =
  t_id :: nat
  t_amount :: rat
  t_type :: txtype
  t_merchant :: string
  t_category_id :: "nat option"
  t_account_id :: "nat option"
  t_user_id :: "nat option"
  t_date :: string
  t_raw_sms :: "string option"
  t_notes :: "string option"
  t_original_merchant :: "string option"

record merchant_mapping_row =
  m_id :: nat
  m_sms_name :: string
  m_display_name :: string
  m_category_id :: "nat option"
  m_user_id :: "nat option"

record category_row =
  c_id :: nat
  c_name :: string
  c_user_id :: "nat option"

record account_row =
  a_id :: nat
  a_name :: string
  a_bank_name :: string
  a_last_4 :: string
  a_type :: string
  a_user_id :: "nat option"

record database =
  transactions :: "transaction_row list"
  merchant_mapping :: "merchant_mapping_row list"
  categories :: "category_row list"
  accounts :: "account_row list"
  seq_transactions :: nat
  seq_merchant_mapping :: nat
  seq_accounts :: nat

definition newId :: "nat \<Rightarrow> nat list \<Rightarrow> nat" where
  "newId seq ids = Suc (foldr max ids seq)"

text \<open>The argument of \<open>insertTransaction\<close>: a \<open>Transaction\<close> without \<open>id\<close> and \<open>createdAt\<close>.\<close>

record TransactionInput =
  in_amount :: rat
  in_type :: txtype
  in_merchant :: string
  in_categoryId :: "nat option"
  in_accountId :: "nat option"
  in_userId :: nat
  in_date :: string
  in_rawSms :: "string option"
  in_notes :: "string option"
  in_originalMerchant :: "string option"

definition isDuplicate :: "TransactionInput \<Rightarrow> transaction_row \<Rightarrow> bool" where
  \<comment> \<open>the \<open>WHERE\<close> clause of the duplicate check\<close>
  "isDuplicate tx r =
     (t_user_id r = Some (in_userId tx) \<and> t_amount r = in_amount tx \<and> t_date r = in_date tx
      \<and> t_type r = in_type tx \<and> t_merchant r = in_merchant tx)"

definition insertRow :: "database \<Rightarrow> TransactionInput \<Rightarrow> nat \<times> database" where
  \<comment> \<open>the \<open>INSERT INTO transactions\<close> statement\<close>
  "insertRow db tx =
     (let i = newId (seq_transactions db) (map t_id (transactions db));
          row = \<lparr>t_id = i, t_amount = in_amount tx, t_type = in_type tx,
                 t_merchant = in_merchant tx, t_category_id = in_categoryId tx,
                 t_account_id = in_accountId tx, t_user_id = Some (in_userId tx),
                 t_date = in_date tx, t_raw_sms = in_rawSms tx, t_notes = in_notes tx,
                 t_original_merchant = in_originalMerchant tx\<rparr>
      in (i, db\<lparr>transactions := transactions db @ [row], seq_transactions := i\<rparr>))"

definition insertTransaction :: "database \<Rightarrow> TransactionInput \<Rightarrow> bool \<Rightarrow> nat \<times> database" where
  "insertTransaction db tx checkDuplicates =
     (if checkDuplicates then
        (case filter (isDuplicate tx) (transactions db) of
           existing # _ \<Rightarrow> (t_id existing, db)
         | [] \<Rightarrow> insertRow db tx)
      else insertRow db tx)"

definition getMerchantMapping :: "database \<Rightarrow> string \<Rightarrow> nat \<Rightarrow> merchant_mapping_row option" where
  "getMerchantMapping db smsName userId =
     (case filter (\<lambda>m. toUpperCase (m_sms_name m) = toUpperCase smsName \<and> m_user_id m = Some userId)
             (merchant_mapping db) of
        [] \<Rightarrow> None
      | m # _ \<Rightarrow> Some m)"

definition insertMerchantMapping ::
    "database \<Rightarrow> string \<Rightarrow> string \<Rightarrow> nat option \<Rightarrow> nat \<Rightarrow> error + nat \<times> database" where
  \<comment> \<open>the table has \<open>UNIQUE(sms_name, user_id)\<close>\<close>
  "insertMerchantMapping db smsName displayName categoryId userId =
     (if \<exists>m \<in> set (merchant_mapping db). m_sms_name m = smsName \<and> m_user_id m = Some userId
      then Inl ConstraintFailed
      else
        let i = newId (seq_merchant_mapping db) (map m_id (merchant_mapping db));
            row = \<lparr>m_id = i, m_sms_name = smsName, m_display_name = displayName,
                   m_category_id = categoryId, m_user_id = Some userId\<rparr>
        in Inr (i, db\<lparr>merchant_mapping := merchant_mapping db @ [row],
                      seq_merchant_mapping := i\<rparr>))"

definition updateAllTransactionsForMerchant ::
    "database \<Rightarrow> string \<Rightarrow> string \<Rightarrow> nat option \<Rightarrow> database" where
  \<comment> \<open>\<open>UPDATE transactions SET merchant = ?, category_id = ? WHERE UPPER(merchant) = UPPER(?)\<close>\<close>
  "updateAllTransactionsForMerchant db rawName displayName categoryId =
     db\<lparr>transactions :=
          map (\<lambda>r. if toUpperCase (t_merchant r) = toUpperCase rawName
                    then r\<lparr>t_merchant := displayName, t_category_id := categoryId\<rparr> else r)
              (transactions db)\<rparr>"

definition updateTransactionMerchant :: "database \<Rightarrow> nat \<Rightarrow> string \<Rightarrow> nat option \<Rightarrow> database" where
  "updateTransactionMerchant db transactionId displayName categoryId =
     db\<lparr>transactions :=
          map (\<lambda>r. if t_id r = transactionId
                    then r\<lparr>t_merchant := displayName, t_category_id := categoryId\<rparr> else r)
              (transactions db)\<rparr>"

definition saveMerchantName ::
    "database \<Rightarrow> string \<Rightarrow> string \<Rightarrow> nat option \<Rightarrow> nat \<Rightarrow> error + database" where
  "saveMerchantName db rawName displayName categoryId userId =
     (case getMerchantMapping db rawName userId of
        Some existing \<Rightarrow>
          let db1 = db\<lparr>merchant_mapping :=
                         map (\<lambda>m. if m_id m = m_id existing
                                   then m\<lparr>m_display_name := displayName, m_category_id := categoryId\<rparr>
                                   else m)
                             (merchant_mapping db)\<rparr>
          in Inr (updateAllTransactionsForMerchant db1 rawName displayName categoryId)
      | None \<Rightarrow>
          (case insertMerchantMapping db (toUpperCase rawName) displayName categoryId userId of
             Inl e \<Rightarrow> Inl e
           | Inr (i, db1) \<Rightarrow>
               Inr (updateAllTransactionsForMerchant db1 rawName displayName categoryId)))"

definition getCategories :: "database \<Rightarrow> nat \<Rightarrow> category_row list" where
  \<comment> \<open>called with a user id that is not 0: \<open>WHERE user_id = ? ORDER BY name ASC\<close>\<close>
  "getCategories db userId =
     sort_key c_name (filter (\<lambda>c. c_user_id c = Some userId) (categories db))"

section \<open>ExpenseParser: categories\<close>

definition categoryKeywords :: "(string \<times> string list) list" where
  "categoryKeywords =
    [ (''Food & Dining'', [''zomato'', ''swiggy'', ''dominos'', ''pizza'', ''restaurant'', ''kfc'',
                          ''burger'', ''cafe'', ''coffee'', ''bakery'', ''hotel'']),
      (''Transportation'', [''uber'', ''ola'', ''rapido'', ''petrol'', ''fuel'', ''shell'', ''hpcl'',
                           ''bpcl'', ''metro'', ''cab'', ''auto'', ''parking'']),
      (''Shopping'', [''amazon'', ''flipkart'', ''myntra'', ''shop'', ''decathlon'', ''nike'',
                     ''adidas'', ''mall'', ''mart'', ''retail'', ''clothing'', ''fashion'']),
      (''Groceries'', [''bigbasket'', ''blinkit'', ''zepto'', ''dmart'', ''fresh'', ''vegetable'',
                      ''fruit'', ''dairy'', ''milk'', ''grocery'', ''supermarket'']),
      (''Entertainment'', [''netflix'', ''spotify'', ''hotstar'', ''prime'', ''youtube'', ''cinema'',
                          ''bookmyshow'', ''multiplex'', ''game'', ''subscription'']),
      (''Bills & Utilities'', [''bescom'', ''bwssb'', ''electricity'', ''water'', ''gas'', ''bill'',
                              ''act'', ''jio'', ''airtel'', ''vi'', ''vodafone'', ''bsnl'',
                              ''recharge'', ''broadband'', ''mobile'']),
      (''Medical'', [''pharmacy'', ''hospital'', ''clinic'', ''medplus'', ''apollo'', ''doctor'',
                    ''health'', ''medical'']),
      (''Travel'', [''irctc'', ''flight'', ''booking'', ''makemytrip'', ''hotel'', ''train'', ''bus'']),
      (''Other'', [''atm'', ''withdrawal'', ''transfer'', ''upi'', ''general'', ''misc'']) ]"

fun categoryByKeyword ::
    "(string \<times> string list) list \<Rightarrow> category_row list \<Rightarrow> string \<Rightarrow> nat option" where
  "categoryByKeyword [] cats lowerMerchant = None"
| "categoryByKeyword ((categoryName, keywords) # rest) cats lowerMerchant =
     (if \<exists>keyword \<in> set keywords. strIncludes lowerMerchant keyword then
        (case find (\<lambda>c. toLowerCase (c_name c) = toLowerCase categoryName) cats of
           Some category \<Rightarrow> Some (c_id category)
         | None \<Rightarrow> categoryByKeyword rest cats lowerMerchant)
      else categoryByKeyword rest cats lowerMerchant)"

definition autoCategorizeMerchant :: "database \<Rightarrow> string \<Rightarrow> nat \<Rightarrow> nat option" where
  "autoCategorizeMerchant db merchantName userId =
     (let cats = getCategories db userId;
          lowerMerchant = toLowerCase merchantName
      in case categoryByKeyword categoryKeywords cats lowerMerchant of
           Some i \<Rightarrow> Some i
         | None \<Rightarrow>
             if strIncludes lowerMerchant ''upi''
             then map_option c_id (find (\<lambda>c. c_name c = ''Other'') cats)
             else None)"

section \<open>SmartSmsProcessor: the pipeline\<close>

text \<open>
  Logging, the \<open>TRANSACTION_UPDATED\<close> event and the new-merchant callback change nothing
  in the database and are not part of the state. The outcome of \<open>processSmartSms\<close> is
  its result object or the exception that escapes it, together with the database it
  leaves behind.
\<close>

record UnknownMerchant =
  rawName :: string
  suggestedName :: string
  um_amount :: rat
  um_transactionId :: nat
  um_categoryId :: "nat option"

record ProcessResult =
  success :: bool
  transactionId :: "nat option"
  needsNaming :: "bool option"
  newMerchant :: "UnknownMerchant option"
  errorMessage :: "string option"

definition getSuggestedName :: "string \<Rightarrow> string" where
  "getSuggestedName raw =
     trim (joinWith '' ''
       (map capitalize
         (splitRe (many1 (\<lambda>c. isSpace c \<or> c = CHR ''_'' \<or> c = CHR ''-'')) None 0 []
           (replaceAll (Sym (\<lambda>c. \<not> isWord c \<and> \<not> isSpace c)) [] None 0 raw))))"

definition insertAccount ::
    "database \<Rightarrow> string \<Rightarrow> string \<Rightarrow> string \<Rightarrow> string \<Rightarrow> nat \<Rightarrow> error + nat \<times> database" where
  \<comment> \<open>the table has \<open>UNIQUE(bank_name, last_4, user_id)\<close>\<close>
  "insertAccount db name bankName last4 accType userId =
     (if \<exists>a \<in> set (accounts db).
           a_bank_name a = bankName \<and> a_last_4 a = last4 \<and> a_user_id a = Some userId
      then Inl ConstraintFailed
      else
        let i = newId (seq_accounts db) (map a_id (accounts db));
            row = \<lparr>a_id = i, a_name = name, a_bank_name = bankName, a_last_4 = last4,
                   a_type = accType, a_user_id = Some userId\<rparr>
        in Inr (i, db\<lparr>accounts := accounts db @ [row], seq_accounts := i\<rparr>))"

definition findAccount :: "database \<Rightarrow> string \<Rightarrow> string \<Rightarrow> nat \<Rightarrow> nat option" where
  \<comment> \<open>\<open>SELECT id FROM accounts WHERE bank_name = ? AND last_4 = ? AND user_id = ?\<close>, first row\<close>
  "findAccount db bankName last4 userId =
     map_option a_id
       (find (\<lambda>a. a_bank_name a = bankName \<and> a_last_4 a = last4 \<and> a_user_id a = Some userId)
             (accounts db))"

definition resolveAccountId ::
    "database \<Rightarrow> string option \<Rightarrow> string \<Rightarrow> nat \<Rightarrow> nat option \<times> database" where
  "resolveAccountId db last4 sender userId =
     (let bankName = replaceFirst (seqs [Bol, Rep True 2 (Some 2) (anyOf uppers), chr CHR ''-'']) []
                       sender;
          noLast4 = (last4 = None \<or> last4 = Some []);
          queryLast4 = (if noLast4 then ''XXXX'' else the last4);
          existing =
            (if noLast4
             then map_option a_id
                    (find (\<lambda>a. a_bank_name a = bankName \<and> a_user_id a = Some userId) (accounts db))
             else findAccount db bankName queryLast4 userId)
      in case existing of
           Some i \<Rightarrow> (Some i, db)
         | None \<Rightarrow>
             let defaultName =
                   (if noLast4 then bankName @ '' Main Account''
                    else bankName @ '' debit - '' @ queryLast4 @ '' '')
             in case insertAccount db defaultName bankName queryLast4 ''debit'' userId of
                  Inr (i, db1) \<Rightarrow> (Some i, db1)
                | Inl e \<Rightarrow> (findAccount db bankName queryLast4 userId, db))"

definition failure :: "string \<Rightarrow> ProcessResult" where
  "failure msg = \<lparr>success = False, transactionId = None, needsNaming = None,
                  newMerchant = None, errorMessage = Some msg\<rparr>"

definition processSmartSms ::
    "(string \<Rightarrow> string) \<Rightarrow> int \<Rightarrow> nat option \<Rightarrow> database \<Rightarrow> string \<Rightarrow> string \<Rightarrow> nat option
      \<Rightarrow> int option \<Rightarrow> (error + ProcessResult) \<times> database" where
  \<comment> \<open>\<open>storedUser\<close> is the user id kept in the app's storage, read when no \<open>userId\<close> is
      passed. A NaN amount reaches SQLite as NULL and the \<open>INSERT\<close> fails on
      \<open>amount REAL NOT NULL\<close>.\<close>
  "processSmartSms nfkc now storedUser db sms sender userId smsTimestamp =
     (let currentUserId =
            (case userId of
               None \<Rightarrow> storedUser
             | Some u \<Rightarrow> if u \<noteq> 0 then Some u else storedUser)
      in case currentUserId of
           None \<Rightarrow> (Inr (failure ''User not logged in''), db)
         | Some uid \<Rightarrow>
             if uid = 0 then (Inr (failure ''User not logged in''), db)
             else
               let validation = validateTransactionSms sms sender in
               if \<not> isValid validation then
                 (Inr (failure (''Not a valid transaction: '' @ reason validation @ '' '')), db)
               else if \<not> isTransaction validation then
                 (Inr (failure ''Not a transaction SMS''), db)
               else
                 case parseExpenseWithRegex nfkc now sms (isKnownBankSender sender) smsTimestamp of
                   Inl e \<Rightarrow> (Inl e, db)
                 | Inr None \<Rightarrow> (Inr (failure ''Could not parse transaction details''), db)
                 | Inr (Some parsed) \<Rightarrow>
                     let mapping = getMerchantMapping db (merchant parsed) uid;
                         isKnown = (mapping \<noteq> None);
                         displayName =
                           (case mapping of
                              Some m \<Rightarrow> m_display_name m
                            | None \<Rightarrow> getSuggestedName (merchant parsed));
                         categoryId =
                           (case mapping of
                              Some m \<Rightarrow> m_category_id m
                            | None \<Rightarrow> autoCategorizeMerchant db (merchant parsed) uid);
                         (accountId, db1) = resolveAccountId db (accountLast4 parsed) sender uid
                     in case amount parsed of
                          None \<Rightarrow> (Inl ConstraintFailed, db1)
                        | Some amt \<Rightarrow>
                            let (tid, db2) =
                                  insertTransaction db1
                                    \<lparr>in_amount = amt, in_type = type parsed,
                                     in_merchant = displayName, in_categoryId = categoryId,
                                     in_accountId = accountId, in_userId = uid,
                                     in_date = date parsed, in_rawSms = Some sms,
                                     in_notes = None, in_originalMerchant = None\<rparr>
                                    True
                            in if \<not> isKnown then
                                 (Inr \<lparr>success = True, transactionId = Some tid,
                                       needsNaming = Some True,
                                       newMerchant =
                                         Some \<lparr>rawName = merchant parsed,
                                               suggestedName = displayName, um_amount = amt,
                                               um_transactionId = tid,
                                               um_categoryId = categoryId\<rparr>,
                                       errorMessage = None\<rparr>, db2)
                               else
                                 (Inr \<lparr>success = True, transactionId = Some tid,
                                       needsNaming = Some False, newMerchant = None,
                                       errorMessage = None\<rparr>, db2))"

text \<open>The record that \<open>processSmartSms\<close> hands to \<open>insertTransaction\<close>.\<close>

definition savedInput :: "database \<Rightarrow> ParsedExpense \<Rightarrow> nat \<Rightarrow> string \<Rightarrow> nat option \<Rightarrow> rat \<Rightarrow> TransactionInput" where
  "savedInput d parsed uid sms acc amt =
      \<lparr>in_amount = amt, in_type = type parsed,
       in_merchant = (case getMerchantMapping d (merchant parsed) uid of
                        Some m \<Rightarrow> m_display_name m
                      | None \<Rightarrow> getSuggestedName (merchant parsed)),
       in_categoryId = (case getMerchantMapping d (merchant parsed) uid of
                          Some m \<Rightarrow> m_category_id m
                        | None \<Rightarrow> autoCategorizeMerchant d (merchant parsed) uid),
       in_accountId = acc, in_userId = uid, in_date = date parsed, in_rawSms = Some sms,
       in_notes = None, in_originalMerchant = None\<rparr>"

section \<open>SmartSmsProcessor: merchants without a name\<close>

record UnnamedMerchant =
  un_rawName :: string
  un_count :: nat
  un_lastAmount :: rat

definition groupBy :: "('a \<Rightarrow> 'k) \<Rightarrow> 'a list \<Rightarrow> ('k \<times> 'a list) list" where
  \<comment> \<open>\<open>GROUP BY\<close>: one group for each key, its rows in table order\<close>
  "groupBy key rows = map (\<lambda>k. (k, filter (\<lambda>r. key r = k) rows)) (remdups (map key rows))"

definition byCountDesc :: "('k \<times> 'a list) list \<Rightarrow> ('k \<times> 'a list) list" where
  \<comment> \<open>\<open>ORDER BY COUNT(*) DESC\<close>; SQLite fixes no order among equal counts, the model keeps
      the order of the groups\<close>
  "byCountDesc gs = sort_key (\<lambda>g. - int (length (snd g))) gs"

definition maxAmount :: "transaction_row list \<Rightarrow> rat" where
  \<comment> \<open>\<open>MAX(t.amount)\<close> of a group, which has a row\<close>
  "maxAmount rows = (case rows of [] \<Rightarrow> 0 | r # rs \<Rightarrow> foldl max (t_amount r) (map t_amount rs))"

definition unnamedRow :: "transaction_row list \<Rightarrow> UnnamedMerchant" where
  \<comment> \<open>with \<open>MAX\<close> in the select list, SQLite takes the bare column \<open>t.merchant\<close> from a row
      that holds the maximum\<close>
  "unnamedRow rows =
     \<lparr>un_rawName = (case find (\<lambda>r. t_amount r = maxAmount rows) rows of
                      Some r \<Rightarrow> t_merchant r | None \<Rightarrow> []),
      un_count = length rows,
      un_lastAmount = maxAmount rows\<rparr>"

definition getUnnamedMerchants :: "database \<Rightarrow> nat \<Rightarrow> UnnamedMerchant list" where
  "getUnnamedMerchants db userId =
     (let unmatched =
            filter (\<lambda>t. t_user_id t = Some userId \<and>
                        \<not> (\<exists>m \<in> set (merchant_mapping db).
                             toUpperCase (t_merchant t) = toUpperCase (m_sms_name m) \<and>
                             m_user_id m = Some userId))
                   (transactions db)
      in map (\<lambda>g. unnamedRow (snd g))
             (byCountDesc (groupBy (\<lambda>t. toUpperCase (t_merchant t)) unmatched)))"

section \<open>Subscription detection\<close>

datatype frequency = Weekly | Monthly | Yearly



definition localFields :: "int \<Rightarrow> int \<Rightarrow> int \<times> int \<times> int \<times> int" where
  \<comment> \<open>year, month from 0, day of the month and time within the day, in local time\<close>
  "localFields tz t =
     (let lt = t + tz * 60000 in
      case civilFromDays (lt div msPerDay) of
        (y, m, d) \<Rightarrow> (y, m - 1, d, lt mod msPerDay))"

definition fromLocal :: "int \<Rightarrow> int \<Rightarrow> int \<Rightarrow> int \<Rightarrow> int \<Rightarrow> int" where
  "fromLocal tz y m d tod = MakeDay y m d * msPerDay + tod - tz * 60000"

definition addMonths :: "int \<Rightarrow> int \<Rightarrow> int \<Rightarrow> int" where
  \<comment> \<open>\<open>d.setMonth(d.getMonth() + k)\<close>\<close>
  "addMonths tz k t = (case localFields tz t of (y, m, d, tod) \<Rightarrow> fromLocal tz y (m + k) d tod)"

definition addDays :: "int \<Rightarrow> int \<Rightarrow> int \<Rightarrow> int" where
  \<comment> \<open>\<open>d.setDate(d.getDate() + k)\<close>\<close>
  "addDays tz k t = (case localFields tz t of (y, m, d, tod) \<Rightarrow> fromLocal tz y m (d + k) tod)"

definition addYears :: "int \<Rightarrow> int \<Rightarrow> int \<Rightarrow> int" where
  \<comment> \<open>\<open>d.setFullYear(d.getFullYear() + k)\<close>\<close>
  "addYears tz k t = (case localFields tz t of (y, m, d, tod) \<Rightarrow> fromLocal tz (y + k) m d tod)"

definition calculateNextDate :: "int \<Rightarrow> string \<Rightarrow> frequency \<Rightarrow> error + string" where
  \<comment> \<open>\<open>toISOString\<close> throws on an invalid date; a date that parses lies in the years
      0 to 9999, and a week, a month or a year later is still a valid date\<close>
  "calculateNextDate tz lastDate freq =
     (case Date_parse lastDate of
        None \<Rightarrow> Inl RangeError
      | Some t \<Rightarrow>
          Inr (isoDate (case freq of
                          Weekly \<Rightarrow> addDays tz 7 t
                        | Monthly \<Rightarrow> addMonths tz 1 t
                        | Yearly \<Rightarrow> addYears tz 1 t)))"








section \<open>Specification predicates\<close>

text \<open>
  What a pattern can match, read off its syntax: \<open>sem r u cs\<close> says that the text \<open>u\<close>
  matches \<open>r\<close> with the captures \<open>cs\<close>; the anchors are not looked at.
\<close>

fun sem :: "re \<Rightarrow> string \<Rightarrow> string list \<Rightarrow> bool" where
  "sem Eps u cs = (u = [] \<and> cs = [])"
| "sem (Sym P) u cs = (\<exists>c. u = [c] \<and> P c \<and> cs = [])"
| "sem (Seq a b) u cs = (\<exists>u1 u2 c1 c2. u = u1 @ u2 \<and> cs = c1 @ c2 \<and> sem a u1 c1 \<and> sem b u2 c2)"
| "sem (Alt a b) u cs = (sem a u cs \<or> sem b u cs)"
| "sem (Rep g n mx P) u cs =
     (list_all P u \<and> n \<le> length u \<and> (case mx of None \<Rightarrow> True | Some m \<Rightarrow> length u \<le> m) \<and> cs = [])"
| "sem (Grp a) u cs = (\<exists>c. sem a u c \<and> cs = c @ [u])"
| "sem Bol u cs = (u = [] \<and> cs = [])"
| "sem Eol u cs = (u = [] \<and> cs = [])"
| "sem Wb u cs = (u = [] \<and> cs = [])"



text \<open>
  The three gates of \<open>parseExpenseWithRegex\<close> in the words of the specification: the
  text has a digit and a transaction verb; a labelled last-4 pattern matches or the
  sender is a known bank; the amount pattern matches.
\<close>

definition extractionGates :: "string \<Rightarrow> bool \<Rightarrow> bool" where
  "extractionGates sms isKnownBank =
     (((\<exists>c \<in> set sms. isDigit c) \<and> test transactionVerbs sms) \<and>
      ((\<exists>r \<in> set ACCOUNT_PATTERNS. test r sms) \<or> isKnownBank) \<and>
      test amountPattern sms)"

section \<open>Example data\<close>

definition emptyDb :: database where
  "emptyDb = \<lparr>transactions = [], merchant_mapping = [], categories = [], accounts = [],
              seq_transactions = 0, seq_merchant_mapping = 0, seq_accounts = 0\<rparr>"

definition debitRow :: "nat \<Rightarrow> nat \<Rightarrow> string \<Rightarrow> rat \<Rightarrow> string \<Rightarrow> transaction_row" where
  \<comment> \<open>a debit of a user, with no category, account, text, notes or original merchant\<close>
  "debitRow i u m a d =
     \<lparr>t_id = i, t_amount = a, t_type = Debit, t_merchant = m, t_category_id = None,
      t_account_id = None, t_user_id = Some u, t_date = d, t_raw_sms = None, t_notes = None,
      t_original_merchant = None\<rparr>"

definition twoOwnersDb :: database where
  \<comment> \<open>users 1 and 2 each hold a transaction with the same raw merchant label\<close>
  "twoOwnersDb =
     emptyDb\<lparr>transactions := [debitRow 1 1 ''UPI-ZOMATO-123'' 250 ''2024-01-05'',
                               debitRow 2 2 ''UPI-ZOMATO-123'' 80 ''2024-01-06''],
             seq_transactions := 2\<rparr>"

definition shopDb :: database where
  \<comment> \<open>user 1 paid the same merchant 500 in January and 100 in February\<close>
  "shopDb =
     emptyDb\<lparr>transactions := [debitRow 1 1 ''UPI-SHOP'' 500 ''2024-01-01'',
                               debitRow 2 1 ''UPI-SHOP'' 100 ''2024-02-01''],
             seq_transactions := 2\<rparr>"




section \<open>Validation: the accept threshold\<close>

text \<open>
  C9. A sender that matches no pattern of the bank allow-list is never accepted, whatever
  the message says: without the sender bonus the confidence is at most 0.5, below the
  0.8 asked of an unknown sender.
\<close>

theorem unknown_sender_never_valid:
  "\<not> isKnownBankSender sender \<Longrightarrow>
     \<not> isValid (validateTransactionSms sms sender) \<and>
     confidence (validateTransactionSms sms sender) \<le> 1 / 2"
  by (simp add: validateTransactionSms_def Let_def)

theorem unknown_sender_never_valid_witness:
  "\<not> isKnownBankSender ''VM-SHOPPE'' \<and>
   \<not> isValid (validateTransactionSms ''Rs 500 debited from A/c XX1234 via UPI txn'' ''VM-SHOPPE'') \<and>
   confidence (validateTransactionSms ''Rs 500 debited from A/c XX1234 via UPI txn'' ''VM-SHOPPE'')
     \<le> 1 / 2"
proof -
  have unknown: "\<not> isKnownBankSender ''VM-SHOPPE''"
    by code_simp
  from unknown unknown_sender_never_valid [OF unknown] show ?thesis
    by blast
qed

text \<open>
  C4. A message body that matches exactly one bank-indicator pattern and no spam
  indicator, from a sender without the promotional route marker, is accepted when the
  sender is on the bank allow-list (confidence 0.5, threshold 0.4) and rejected when it is
  not (confidence 0, threshold 0.8).
\<close>

theorem single_indicator_accept_depends_on_sender:
  assumes "countMatches BANK_INDICATORS sms = 1"
    and "countMatches SPAM_INDICATORS sms = 0"
    and "\<not> test promotionalSender sender"
  shows "(isKnownBankSender sender \<longrightarrow>
            isValid (validateTransactionSms sms sender) \<and>
            confidence (validateTransactionSms sms sender) = 1 / 2) \<and>
         (\<not> isKnownBankSender sender \<longrightarrow>
            \<not> isValid (validateTransactionSms sms sender) \<and>
            confidence (validateTransactionSms sms sender) = 0)"
  using assms by (simp add: validateTransactionSms_def Let_def)

theorem single_indicator_accept_depends_on_sender_witness:
  "isValid (validateTransactionSms ''your txn is done'' ''AD-HDFCBK'') \<and>
   \<not> isValid (validateTransactionSms ''your txn is done'' ''AD-FOOBAR'')"
proof -
  have one: "countMatches BANK_INDICATORS ''your txn is done'' = 1"
    by code_simp
  have clean: "countMatches SPAM_INDICATORS ''your txn is done'' = 0"
    by code_simp
  have route1: "\<not> test promotionalSender ''AD-HDFCBK''"
    by code_simp
  have route2: "\<not> test promotionalSender ''AD-FOOBAR''"
    by code_simp
  have known: "isKnownBankSender ''AD-HDFCBK''"
    by code_simp
  have unknown: "\<not> isKnownBankSender ''AD-FOOBAR''"
    by code_simp
  from single_indicator_accept_depends_on_sender [OF one clean route1] known
    single_indicator_accept_depends_on_sender [OF one clean route2] unknown
  show ?thesis by blast
qed

section \<open>The matcher finds only what the pattern describes\<close>

lemma repGreedy_sound:
  "repGreedy P n mx p s k = Some x \<Longrightarrow>
     \<exists>u s' p'. s = u @ s' \<and> list_all P u \<and> n \<le> length u
        \<and> (case mx of None \<Rightarrow> True | Some m \<Rightarrow> length u \<le> m) \<and> k p' s' = Some x"
proof (induction s arbitrary: n mx p)
  case Nil
  then show ?case by (auto split: if_splits option.splits)
next
  case (Cons c s)
  show ?case
  proof (cases "P c \<and> mx \<noteq> Some 0")
    case True
    show ?thesis
    proof (cases "repGreedy P (n - 1) (map_option (\<lambda>m. m - 1) mx) (Some c) s k")
      case None
      with Cons.prems True have "n = 0" "k p (c # s) = Some x"
        by (auto split: if_splits)
      then show ?thesis
        by (intro exI [of _ "[]"] exI [of _ "c # s"] exI [of _ p]) (auto split: option.splits)
    next
      case (Some r)
      with Cons.prems True have "r = x" by simp
      with Some Cons.IH obtain u s' p' where
        u: "s = u @ s'" "list_all P u" "n - 1 \<le> length u"
           "(case map_option (\<lambda>m. m - 1) mx of None \<Rightarrow> True | Some m \<Rightarrow> length u \<le> m)"
           "k p' s' = Some x"
        by blast
      from u True show ?thesis
        by (intro exI [of _ "c # u"] exI [of _ s'] exI [of _ p']) (auto split: option.splits)
    qed
  next
    case False
    with Cons.prems have "n = 0" "k p (c # s) = Some x"
      by (auto split: if_splits)
    then show ?thesis
      by (intro exI [of _ "[]"] exI [of _ "c # s"] exI [of _ p]) (auto split: option.splits)
  qed
qed

lemma repLazy_sound:
  "repLazy P n mx p s k = Some x \<Longrightarrow>
     \<exists>u s' p'. s = u @ s' \<and> list_all P u \<and> n \<le> length u
        \<and> (case mx of None \<Rightarrow> True | Some m \<Rightarrow> length u \<le> m) \<and> k p' s' = Some x"
proof (induction s arbitrary: n mx p)
  case Nil
  then show ?case by (auto split: if_splits option.splits)
next
  case (Cons c s)
  show ?case
  proof (cases "n = 0 \<and> k p (c # s) \<noteq> None")
    case True
    with Cons.prems have "k p (c # s) = Some x" by auto
    with True show ?thesis
      by (intro exI [of _ "[]"] exI [of _ "c # s"] exI [of _ p]) (auto split: option.splits)
  next
    case False
    with Cons.prems have step: "P c" "mx \<noteq> Some 0"
      "repLazy P (n - 1) (map_option (\<lambda>m. m - 1) mx) (Some c) s k = Some x"
      by (auto split: if_splits option.splits)
    with Cons.IH obtain u s' p' where
      u: "s = u @ s'" "list_all P u" "n - 1 \<le> length u"
         "(case map_option (\<lambda>m. m - 1) mx of None \<Rightarrow> True | Some m \<Rightarrow> length u \<le> m)"
         "k p' s' = Some x"
      by blast
    from u step show ?thesis
      by (intro exI [of _ "c # u"] exI [of _ s'] exI [of _ p']) (auto split: option.splits)
  qed
qed

lemma rmatch_sound:
  "rmatch r p s cs k = Some x \<Longrightarrow>
     \<exists>u s' cs' p'. s = u @ s' \<and> sem r u cs' \<and> k p' s' (cs @ cs') = Some x"
proof (induction r arbitrary: p s cs k)
  case Eps
  then show ?case by (intro exI [of _ "[]"] exI [of _ s]) auto
next
  case (Sym P)
  then obtain c s' where "s = c # s'" "P c" "k (Some c) s' cs = Some x"
    by (cases s) (auto split: if_splits)
  then show ?case
    by (intro exI [of _ "[c]"] exI [of _ s'] exI [of _ "[]"] exI [of _ "Some c"]) auto
next
  case (Seq a b)
  from Seq.prems have "rmatch a p s cs (\<lambda>p' s' cs'. rmatch b p' s' cs' k) = Some x"
    by simp
  from Seq.IH(1) [OF this] obtain u1 s1 c1 p1 where
    a: "s = u1 @ s1" "sem a u1 c1" "rmatch b p1 s1 (cs @ c1) k = Some x"
    by blast
  from Seq.IH(2) [OF a(3)] obtain u2 s2 c2 p2 where
    b: "s1 = u2 @ s2" "sem b u2 c2" "k p2 s2 ((cs @ c1) @ c2) = Some x"
    by blast
  from a b show ?case
    by (intro exI [of _ "u1 @ u2"] exI [of _ s2] exI [of _ "c1 @ c2"] exI [of _ p2]) auto
next
  case (Alt a b)
  show ?case
  proof (cases "rmatch a p s cs k")
    case None
    with Alt.prems have "rmatch b p s cs k = Some x" by simp
    from Alt.IH(2) [OF this] show ?thesis by auto
  next
    case (Some r)
    with Alt.prems have "rmatch a p s cs k = Some x" by simp
    from Alt.IH(1) [OF this] show ?thesis by auto
  qed
next
  case (Rep g n mx P)
  have "\<exists>u s' p'. s = u @ s' \<and> list_all P u \<and> n \<le> length u
        \<and> (case mx of None \<Rightarrow> True | Some m \<Rightarrow> length u \<le> m) \<and> k p' s' cs = Some x"
  proof (cases g)
    case True
    with Rep.prems have "repGreedy P n mx p s (\<lambda>p' s'. k p' s' cs) = Some x" by simp
    from repGreedy_sound [OF this] show ?thesis .
  next
    case False
    with Rep.prems have "repLazy P n mx p s (\<lambda>p' s'. k p' s' cs) = Some x" by simp
    from repLazy_sound [OF this] show ?thesis .
  qed
  then show ?case by auto
next
  case (Grp a)
  from Grp.prems have
    "rmatch a p s cs (\<lambda>p' s' cs'. k p' s' (cs' @ [take (length s - length s') s])) = Some x"
    by simp
  from Grp.IH [OF this] obtain u s' c p' where
    a: "s = u @ s'" "sem a u c" "k p' s' ((cs @ c) @ [take (length s - length s') s]) = Some x"
    by blast
  from a show ?case
    by (intro exI [of _ u] exI [of _ s'] exI [of _ "c @ [u]"] exI [of _ p']) auto
next
  case Bol
  then show ?case by (intro exI [of _ "[]"] exI [of _ s]) (auto split: if_splits)
next
  case Eol
  then show ?case by (intro exI [of _ "[]"] exI [of _ s]) (auto split: if_splits)
next
  case Wb
  then show ?case by (intro exI [of _ "[]"] exI [of _ s]) (auto split: if_splits)
qed

lemma matchAt_sound:
  "matchAt r p s = Some (s', cs) \<Longrightarrow> \<exists>u. s = u @ s' \<and> sem r u cs"
  unfolding matchAt_def by (drule rmatch_sound) auto

lemma search_sound:
  "search r p pre s = Some m \<Longrightarrow>
     pre @ s = before m @ whole m @ after m \<and> sem r (whole m) (groups m)"
proof (induction s arbitrary: p pre)
  case Nil
  then show ?case
    by (auto split: option.splits dest!: matchAt_sound)
next
  case (Cons c s)
  show ?case
  proof (cases "matchAt r p (c # s)")
    case None
    with Cons.prems have "search r (Some c) (pre @ [c]) s = Some m" by simp
    from Cons.IH [OF this] show ?thesis by simp
  next
    case (Some a)
    obtain s' cs where a: "a = (s', cs)" by (cases a)
    from matchAt_sound Some a obtain u where u: "c # s = u @ s'" "sem r u cs" by blast
    from u(1) have tk: "take (length (c # s) - length s') (c # s) = u"
      by (metis add_diff_cancel_right' append_eq_conv_conj length_append)
    from Cons.prems Some a have
      "m = \<lparr>before = pre, whole = take (length (c # s) - length s') (c # s),
            groups = cs, after = s'\<rparr>"
      by simp
    with tk have "before m = pre" "whole m = u" "groups m = cs" "after m = s'"
      by simp_all
    with u show ?thesis by simp
  qed
qed

lemma exec_sound:
  "exec r s = Some m \<Longrightarrow> s = before m @ whole m @ after m \<and> sem r (whole m) (groups m)"
  unfolding exec_def by (drule search_sound) simp

lemma strIncludes_single: "strIncludes s [c] \<longleftrightarrow> c \<in> set s"
  by (induction s) auto

lemma trim_id:
  assumes "s \<noteq> []" and "\<not> isSpace (hd s)" and "\<not> isSpace (last s)"
  shows "trim s = s"
proof -
  from assms have "dropWhile isSpace s = s"
    by (cases s) auto
  moreover from assms have "dropWhile isSpace (rev s) = rev s"
    by (cases "rev s") (auto simp: hd_rev)
  ultimately show ?thesis by (simp add: trim_def)
qed

lemma firstGroup_None: "firstGroup rs s = None \<longleftrightarrow> (\<forall>r \<in> set rs. \<not> test r s)"
  by (induction rs) (auto simp: test_def split: option.splits)

lemma repGreedy_total:
  assumes "\<And>p' s'. k p' s' \<noteq> None"
  shows "n \<le> length (takeWhile P s) \<Longrightarrow>
         repGreedy P n None p s k =
           k (if takeWhile P s = [] then p else Some (last (takeWhile P s))) (dropWhile P s)"
proof (induction s arbitrary: n p)
  case Nil
  then show ?case by simp
next
  case (Cons c s)
  show ?case
  proof (cases "P c")
    case True
    with Cons.prems have "n - 1 \<le> length (takeWhile P s)" by simp
    from Cons.IH [OF this, of "Some c"] have ih:
      "repGreedy P (n - 1) None (Some c) s k =
         k (if takeWhile P s = [] then Some c else Some (last (takeWhile P s))) (dropWhile P s)" .
    from assms obtain r where r:
      "k (if takeWhile P s = [] then Some c else Some (last (takeWhile P s))) (dropWhile P s) = Some r"
      by (meson not_None_eq)
    from True ih r have "repGreedy P n None p (c # s) k = Some r"
      by simp
    moreover from True r have
      "k (if takeWhile P (c # s) = [] then p else Some (last (takeWhile P (c # s))))
         (dropWhile P (c # s)) = Some r"
      by (cases "takeWhile P s = []") simp_all
    ultimately show ?thesis by simp
  next
    case False
    with Cons.prems show ?thesis by simp
  qed
qed

lemma matchAt_many1:
  "matchAt (many1 P) p s = (if takeWhile P s = [] then None else Some (dropWhile P s, []))"
proof (cases "takeWhile P s = []")
  case True
  then show ?thesis
    by (cases s) (auto simp: matchAt_def many1_def split: if_splits)
next
  case False
  then have "1 \<le> length (takeWhile P s)"
    by (cases "takeWhile P s") simp_all
  from repGreedy_total [where k = "\<lambda>p' s'. Some (s', [])" and P = P, OF _ this, of p]
  have "repGreedy P 1 None p s (\<lambda>p' s'. Some (s', [])) = Some (dropWhile P s, [])"
    by simp
  with False show ?thesis
    unfolding matchAt_def many1_def rmatch.simps by simp
qed

lemma test_many1: "test (many1 P) s \<longleftrightarrow> (\<exists>c \<in> set s. P c)"
proof -
  have "search (many1 P) p pre s \<noteq> None \<longleftrightarrow> (\<exists>c \<in> set s. P c)" for p pre
  proof (induction s arbitrary: p pre)
    case Nil
    then show ?case by (simp add: matchAt_many1)
  next
    case (Cons c s)
    from Cons.IH [of "Some c" "pre @ [c]"] show ?case
      by (simp add: matchAt_many1)
  qed
  then show ?thesis by (simp add: test_def exec_def)
qed

section \<open>ExpenseParser: the gates\<close>

text \<open>
  C5, as amended. \<open>parseExpenseWithRegex\<close> returns \<open>null\<close> exactly when one of the three
  gates fails. When all three pass it returns a record if the call has no timestamp or a
  timestamp that is a valid time value, and throws a RangeError if the timestamp is
  outside the range of valid dates.
\<close>

theorem parse_null_iff_gate_fails:
  "(parseExpenseWithRegex nfkc now rawSms isKnownBank smsTimestamp = Inr None \<longleftrightarrow>
      \<not> extractionGates (nfkc rawSms) isKnownBank) \<and>
   (extractionGates (nfkc rawSms) isKnownBank \<and> (\<forall>t. smsTimestamp = Some t \<longrightarrow> validTime t) \<longrightarrow>
      (\<exists>p. parseExpenseWithRegex nfkc now rawSms isKnownBank smsTimestamp = Inr (Some p))) \<and>
   (extractionGates (nfkc rawSms) isKnownBank \<and> (\<exists>t. smsTimestamp = Some t \<and> \<not> validTime t) \<longrightarrow>
      parseExpenseWithRegex nfkc now rawSms isKnownBank smsTimestamp = Inl RangeError)"
proof -
  have zero: "validTime 0" by (simp add: validTime_def)
  have gate1: "isValidTransaction (nfkc rawSms) \<longleftrightarrow>
      (\<exists>c \<in> set (nfkc rawSms). isDigit c) \<and> test transactionVerbs (nfkc rawSms)"
    by (simp add: isValidTransaction_def test_many1)
  have gate2: "extractAccountInfo (nfkc rawSms) = None \<longleftrightarrow>
      (\<forall>r \<in> set ACCOUNT_PATTERNS. \<not> test r (nfkc rawSms))"
    by (simp add: extractAccountInfo_def firstGroup_None)
  have gate3: "test amountPattern (nfkc rawSms) \<longleftrightarrow> exec amountPattern (nfkc rawSms) \<noteq> None"
    by (simp add: test_def)
  have gates: "extractionGates (nfkc rawSms) isKnownBank \<longleftrightarrow>
      isValidTransaction (nfkc rawSms) \<and>
      (extractAccountInfo (nfkc rawSms) \<noteq> None \<or> isKnownBank) \<and>
      exec amountPattern (nfkc rawSms) \<noteq> None"
    unfolding extractionGates_def gate1 gate2 gate3 by blast
  show ?thesis
    unfolding gates using zero
    by (auto simp: parseExpenseWithRegex_def Let_def toISODate_def
             split: option.splits sum.splits)
qed

theorem parse_null_iff_gate_fails_witness:
  "extractionGates ''Rs 5 paid A/c X123'' False \<and>
   (\<exists>p. parseExpenseWithRegex (\<lambda>s. s) 0 ''Rs 5 paid A/c X123'' False (Some 1704412800000)
          = Inr (Some p)) \<and>
   \<not> extractionGates ''Rs 5 paid'' False \<and>
   parseExpenseWithRegex (\<lambda>s. s) 0 ''Rs 5 paid'' False None = Inr None"
proof -
  have pass: "extractionGates ''Rs 5 paid A/c X123'' False"
    by code_simp
  have fail: "\<not> extractionGates ''Rs 5 paid'' False"
    by code_simp
  have ok: "\<forall>t. Some (1704412800000 :: int) = Some t \<longrightarrow> validTime t"
    by (simp add: validTime_def)
  from parse_null_iff_gate_fails
         [where nfkc = "\<lambda>s. s" and rawSms = "''Rs 5 paid A/c X123''" and isKnownBank = False
            and now = 0 and smsTimestamp = "Some 1704412800000"]
       parse_null_iff_gate_fails
         [where nfkc = "\<lambda>s. s" and rawSms = "''Rs 5 paid''" and isKnownBank = False
            and now = 0 and smsTimestamp = None]
       pass fail ok
  show ?thesis by blast
qed

text \<open>
  C5 as stated fails: here all three gates pass and the call throws, because the
  timestamp is one millisecond past the last valid time value.
\<close>

theorem parse_invalid_timestamp_counterexample:
  "extractionGates ''Rs 5 paid A/c X123'' False \<and>
   parseExpenseWithRegex (\<lambda>s. s) 0 ''Rs 5 paid A/c X123'' False (Some 8640000000000001)
     = Inl RangeError"
  by code_simp

section \<open>ExpenseParser: payment handles\<close>

lemma handleChar_not_space: "handleChar c \<Longrightarrow> \<not> isSpace c"
  by (auto simp: handleChar_def isAlpha_def isDigit_def isSpace_def lowers_def uppers_def digits_def)

lemma isAlpha_not_space: "isAlpha c \<Longrightarrow> \<not> isSpace c"
  by (auto simp: isAlpha_def isSpace_def lowers_def uppers_def)

lemma upi_shape:
  assumes "exec upiPattern s = Some u"
  shows "groups u = [whole u] \<and> whole u \<noteq> [] \<and> CHR ''@'' \<in> set (whole u)
         \<and> (\<forall>c \<in> set (whole u). \<not> isSpace c)"
proof -
  from exec_sound [OF assms] have "sem upiPattern (whole u) (groups u)" by simp
  then obtain a b where
    w: "whole u = a @ CHR ''@'' # b" "list_all handleChar a" "list_all isAlpha b"
    and g: "groups u = [whole u]"
    by (auto simp: upiPattern_def many1_def chr_def)
  have "\<not> isSpace CHR ''@''" by (simp add: isSpace_def)
  with w handleChar_not_space isAlpha_not_space
  have "\<forall>c \<in> set (whole u). \<not> isSpace c"
    by (auto simp: list_all_iff)
  with w g show ?thesis by simp
qed

lemma cleanMerchantName_handle:
  assumes "h \<noteq> []" and "CHR ''@'' \<in> set h" and "\<forall>c \<in> set h. \<not> isSpace c"
  shows "cleanMerchantName h = h"
proof -
  from assms have "\<not> isSpace (hd h)" "\<not> isSpace (last h)" by simp_all
  with assms have t: "trim h = h" by (simp add: trim_id)
  have "isSpace CHR '' ''" by (simp add: isSpace_def)
  with assms have "CHR '' '' \<notin> set h" by blast
  with assms t show ?thesis
    by (simp add: cleanMerchantName_def strIncludes_single)
qed

text \<open>
  C6. When the text passes the extraction gates and holds a payment handle (a run of
  letters, digits, full stops, hyphens or underscores, then \<open>@\<close>, then letters) whose
  first match does not contain \<open>.com\<close>, the merchant of the result is that handle
  unchanged: the result is never \<open>null\<close>, every record returned has the handle as
  merchant, and a record is returned whenever the call has no timestamp or a valid one.
  In particular a text with \<open>8007320919@ybl\<close> gives the merchant \<open>8007320919@ybl\<close>.
\<close>

theorem payment_handle_kept_verbatim:
  assumes "isValidTransaction (nfkc rawSms)"
    and "extractAccountInfo (nfkc rawSms) \<noteq> None \<or> isKnownBank"
    and "exec amountPattern (nfkc rawSms) \<noteq> None"
    and "exec upiPattern (nfkc rawSms) = Some u"
    and "\<not> strIncludes (whole u) ''.com''"
  shows "parseExpenseWithRegex nfkc now rawSms isKnownBank smsTimestamp \<noteq> Inr None \<and>
         (\<forall>p. parseExpenseWithRegex nfkc now rawSms isKnownBank smsTimestamp = Inr (Some p)
               \<longrightarrow> merchant p = whole u) \<and>
         ((\<forall>t. smsTimestamp = Some t \<longrightarrow> validTime t) \<longrightarrow>
            (\<exists>p. parseExpenseWithRegex nfkc now rawSms isKnownBank smsTimestamp = Inr (Some p)
                 \<and> merchant p = whole u))"
proof -
  from upi_shape [OF assms(4)] have
    shape: "groups u = [whole u]" "whole u \<noteq> []" "CHR ''@'' \<in> set (whole u)"
      "\<forall>c \<in> set (whole u). \<not> isSpace c"
    by simp_all
  from shape(2-4) have clean: "cleanMerchantName (whole u) = whole u"
    by (rule cleanMerchantName_handle)
  from assms(3) obtain m where m: "exec amountPattern (nfkc rawSms) = Some m" by blast
  from assms(1,2,4,5) m shape clean show ?thesis
    by (auto simp: parseExpenseWithRegex_def Let_def orElse_def toISODate_def
             split: option.splits sum.splits)
qed

theorem payment_handle_kept_verbatim_witness:
  "isValidTransaction ''Rs 9 paid 8007320919@ybl'' \<and>
   exec amountPattern ''Rs 9 paid 8007320919@ybl'' \<noteq> None \<and>
   exec upiPattern ''Rs 9 paid 8007320919@ybl'' =
     Some \<lparr>before = ''Rs 9 paid '', whole = ''8007320919@ybl'', groups = [''8007320919@ybl''],
           after = []\<rparr> \<and>
   \<not> strIncludes ''8007320919@ybl'' ''.com'' \<and>
   (\<exists>p. parseExpenseWithRegex (\<lambda>s. s) 0 ''Rs 9 paid 8007320919@ybl'' True None = Inr (Some p)
        \<and> merchant p = ''8007320919@ybl'')"
proof -
  have valid: "isValidTransaction ''Rs 9 paid 8007320919@ybl''"
    by code_simp
  have amt: "exec amountPattern ''Rs 9 paid 8007320919@ybl'' \<noteq> None"
    by code_simp
  have upi: "exec upiPattern ''Rs 9 paid 8007320919@ybl'' =
     Some \<lparr>before = ''Rs 9 paid '', whole = ''8007320919@ybl'', groups = [''8007320919@ybl''],
           after = []\<rparr>"
    by code_simp
  have nocom: "\<not> strIncludes ''8007320919@ybl'' ''.com''"
    by code_simp
  from payment_handle_kept_verbatim
         [where nfkc = "\<lambda>s. s" and rawSms = "''Rs 9 paid 8007320919@ybl''" and isKnownBank = True
            and now = 0 and smsTimestamp = None
            and u = "\<lparr>before = ''Rs 9 paid '', whole = ''8007320919@ybl'',
                       groups = [''8007320919@ybl''], after = []\<rparr>"]
       valid amt upi nocom
  show ?thesis by simp
qed

section \<open>ExpenseParser: the amount\<close>


















lemma amount_examples:
  "map_sum id (map_option amount)
     (parseExpenseWithRegex (\<lambda>s. s) 0 ''Rs. 1,234.50 debited A/c X123'' False None)
     = Inr (Some (Some (123450 / 100)))"
  "map_sum id (map_option (\<lambda>p. (amount p, type p)))
     (parseExpenseWithRegex (\<lambda>s. s) 0 ''INR 500 credited'' True None)
     = Inr (Some (Some 500, Credit))"
  "map_sum id (map_option amount)
     (parseExpenseWithRegex (\<lambda>s. s) 0 ''Rs 5.678 paid A/c X123'' False None)
     = Inr (Some (Some (567 / 100)))"
  by code_simp+

section \<open>Database: duplicate suppression\<close>




section \<open>Merchant naming\<close>

text \<open>
  C1 fails on the code. Users 1 and 2 each hold a transaction labelled
  \<open>UPI-ZOMATO-123\<close>; user 1 names the merchant, and the transaction of user 2 is
  renamed and recategorised as well: the \<open>UPDATE\<close> of
  \<open>updateAllTransactionsForMerchant\<close> has no condition on the owner.
\<close>

theorem saveMerchantName_rewrites_other_owner:
  "map_sum id (\<lambda>d. map (\<lambda>r. (t_user_id r, t_merchant r, t_category_id r)) (transactions d))
     (saveMerchantName twoOwnersDb ''UPI-ZOMATO-123'' ''Zomato'' (Some 3) 1)
   = Inr [(Some 1, ''Zomato'', Some 3), (Some 2, ''Zomato'', Some 3)]"
  by code_simp

text \<open>
  C8 fails on the code. User 1 paid the merchant 500 and later 100; the entry reports 500,
  the largest amount, where the most recent one is 100.
\<close>

theorem getUnnamedMerchants_reports_largest_amount:
  "getUnnamedMerchants shopDb 1 = [\<lparr>un_rawName = ''UPI-SHOP'', un_count = 2, un_lastAmount = 500\<rparr>]
   \<and> map (\<lambda>r. (t_date r, t_amount r)) (transactions shopDb)
       = [(''2024-01-01'', 500), (''2024-02-01'', 100)]"
  by code_simp

section \<open>The pipeline and the original merchant\<close>

lemma resolveAccountId_transactions:
  "resolveAccountId db l s u = (a, db') \<Longrightarrow> transactions db' = transactions db"
  by (auto simp: resolveAccountId_def insertAccount_def Let_def
           split: option.splits sum.splits if_splits)

lemma insertTransaction_original:
  "insertTransaction db tx c = (i, db') \<Longrightarrow>
     transactions db' = transactions db \<or>
     (\<exists>row. transactions db' = transactions db @ [row] \<and>
        t_original_merchant row = in_originalMerchant tx \<and> t_merchant row = in_merchant tx)"
  by (auto simp: insertTransaction_def insertRow_def Let_def split: if_splits list.splits)

text \<open>Whatever the message, a row that \<open>processSmartSms\<close> adds has no original merchant.\<close>

lemma processSmartSms_original_merchant_null:
  assumes "processSmartSms nfkc now storedUser db sms sender userId smsTimestamp = (out, db')"
  shows "transactions db' = transactions db \<or>
         (\<exists>row. transactions db' = transactions db @ [row] \<and> t_original_merchant row = None)"
  using assms unfolding processSmartSms_def Let_def
  by (auto split: option.splits sum.splits if_splits prod.splits
           dest: resolveAccountId_transactions
           dest!: insertTransaction_original)

text \<open>
  C3 fails on the code. The message parses to the raw merchant \<open>8007320919@ybl\<close>; the
  row inserted has the display name in \<open>merchant\<close> and NULL in \<open>original_merchant\<close>:
  \<open>processSmartSms\<close> passes no \<open>originalMerchant\<close> to \<open>insertTransaction\<close>.
\<close>

theorem processSmartSms_leaves_original_merchant_null:
  "map_sum id (map_option merchant)
     (parseExpenseWithRegex (\<lambda>s. s) 0 ''Rs 9 paid 8007320919@ybl'' True None)
     = Inr (Some ''8007320919@ybl'') \<and>
   map (\<lambda>r. (t_merchant r, t_original_merchant r))
     (transactions (snd (processSmartSms (\<lambda>s. s) 0 None emptyDb ''Rs 9 paid 8007320919@ybl''
        ''AD-HDFCBK'' (Some 1) None)))
     = [(''8007320919ybl'', None)]"
  by code_simp

section \<open>The pipeline: the same message twice\<close>

lemma resolveAccountId_preserves:
  "resolveAccountId db l s u = (a, db') \<Longrightarrow>
     transactions db' = transactions db \<and> merchant_mapping db' = merchant_mapping db \<and>
     categories db' = categories db"
  by (auto simp: resolveAccountId_def insertAccount_def Let_def
           split: option.splits sum.splits if_splits)

lemma insertTransaction_preserves:
  "insertTransaction db tx c = (i, db') \<Longrightarrow>
     merchant_mapping db' = merchant_mapping db \<and> categories db' = categories db"
  by (auto simp: insertTransaction_def insertRow_def Let_def split: if_splits list.splits)

lemma getMerchantMapping_cong:
  "merchant_mapping db' = merchant_mapping db \<Longrightarrow>
     getMerchantMapping db' name u = getMerchantMapping db name u"
  by (simp add: getMerchantMapping_def)

lemma autoCategorizeMerchant_cong:
  "categories db' = categories db \<Longrightarrow>
     autoCategorizeMerchant db' name u = autoCategorizeMerchant db name u"
  by (simp add: autoCategorizeMerchant_def getCategories_def)

lemma insertTransaction_again:
  assumes first: "insertTransaction d1 tx True = (i, d2)"
    and same: "transactions d3 = transactions d2"
    and key: "isDuplicate tx' = isDuplicate tx"
  shows "insertTransaction d3 tx' True = (i, d3)"
proof (cases "filter (isDuplicate tx) (transactions d1)")
  case Nil
  with first have "insertRow d1 tx = (i, d2)"
    by (simp add: insertTransaction_def)
  then have "transactions d2 = transactions d1 @
      [\<lparr>t_id = i, t_amount = in_amount tx, t_type = in_type tx,
        t_merchant = in_merchant tx, t_category_id = in_categoryId tx,
        t_account_id = in_accountId tx, t_user_id = Some (in_userId tx),
        t_date = in_date tx, t_raw_sms = in_rawSms tx, t_notes = in_notes tx,
        t_original_merchant = in_originalMerchant tx\<rparr>]"
    by (auto simp: insertRow_def Let_def)
  with Nil same key show ?thesis
    by (simp add: insertTransaction_def isDuplicate_def)
next
  case (Cons r rs)
  with first have "i = t_id r" "d2 = d1"
    by (simp_all add: insertTransaction_def)
  with Cons same key show ?thesis
    by (simp add: insertTransaction_def)
qed

lemma processSmartSms_run:
  assumes "(case userId of None \<Rightarrow> storedUser
            | Some u \<Rightarrow> if u \<noteq> 0 then Some u else storedUser) = Some uid"
    and "uid \<noteq> 0"
    and "isValid (validateTransactionSms sms sender)"
    and "isTransaction (validateTransactionSms sms sender)"
    and "parseExpenseWithRegex nfkc now sms (isKnownBankSender sender) smsTimestamp
              = Inr (Some parsed)"
    and "resolveAccountId d (accountLast4 parsed) sender uid = (acc, dA)"
    and "amount parsed = Some amt"
    and "insertTransaction dA (savedInput d parsed uid sms acc amt) True = (tid, dB)"
  shows "\<exists>r. processSmartSms nfkc now storedUser d sms sender userId smsTimestamp = (Inr r, dB)
           \<and> success r \<and> transactionId r = Some tid"
  using assms unfolding processSmartSms_def savedInput_def
  by (simp add: Let_def)

lemma processSmartSms_run_inv:
  assumes ok: "processSmartSms nfkc now storedUser d sms sender userId smsTimestamp = (Inr r, d1)"
    and s: "success r"
  shows "\<exists>uid parsed acc dA amt tid.
     (case userId of None \<Rightarrow> storedUser
            | Some u \<Rightarrow> if u \<noteq> 0 then Some u else storedUser) = Some uid \<and> uid \<noteq> 0 \<and>
     isValid (validateTransactionSms sms sender) \<and>
     isTransaction (validateTransactionSms sms sender) \<and>
     parseExpenseWithRegex nfkc now sms (isKnownBankSender sender) smsTimestamp
              = Inr (Some parsed) \<and>
     resolveAccountId d (accountLast4 parsed) sender uid = (acc, dA) \<and>
     amount parsed = Some amt \<and>
     insertTransaction dA (savedInput d parsed uid sms acc amt) True = (tid, d1) \<and>
     transactionId r = Some tid"
proof -
  define cur where "cur = (case userId of None \<Rightarrow> storedUser
            | Some u \<Rightarrow> if u \<noteq> 0 then Some u else storedUser)"
  have uid: "\<exists>uid. cur = Some uid \<and> uid \<noteq> 0"
  proof (cases cur)
    case None
    with ok s show ?thesis
      unfolding processSmartSms_def cur_def [symmetric] by (auto simp: failure_def)
  next
    case (Some u)
    with ok s show ?thesis
      unfolding processSmartSms_def cur_def [symmetric]
      by (cases "u = 0") (auto simp: failure_def)
  qed
  then obtain uid where cur: "cur = Some uid" and nz: "uid \<noteq> 0" by blast
  have v: "isValid (validateTransactionSms sms sender)"
  proof (rule ccontr)
    assume "\<not> ?thesis"
    with ok s cur nz show False
      unfolding processSmartSms_def cur_def [symmetric] by (auto simp: failure_def)
  qed
  have t: "isTransaction (validateTransactionSms sms sender)"
  proof (rule ccontr)
    assume "\<not> ?thesis"
    with ok s cur nz v show False
      unfolding processSmartSms_def cur_def [symmetric] by (auto simp: failure_def)
  qed
  have p: "\<exists>parsed. parseExpenseWithRegex nfkc now sms (isKnownBankSender sender) smsTimestamp
              = Inr (Some parsed)"
  proof (cases "parseExpenseWithRegex nfkc now sms (isKnownBankSender sender) smsTimestamp")
    case (Inl e)
    with ok s cur nz v t show ?thesis
      unfolding processSmartSms_def cur_def [symmetric] by (auto simp: failure_def)
  next
    case (Inr o1)
    show ?thesis
    proof (cases o1)
      case None
      with Inr ok s cur nz v t show ?thesis
        unfolding processSmartSms_def cur_def [symmetric] by (auto simp: failure_def)
    next
      case (Some parsed)
      with Inr show ?thesis by simp
    qed
  qed
  then obtain parsed where parsed:
    "parseExpenseWithRegex nfkc now sms (isKnownBankSender sender) smsTimestamp
              = Inr (Some parsed)" by blast
  obtain acc dA where acc: "resolveAccountId d (accountLast4 parsed) sender uid = (acc, dA)"
    by (cases "resolveAccountId d (accountLast4 parsed) sender uid")
  have a: "\<exists>amt. amount parsed = Some amt"
  proof (cases "amount parsed")
    case None
    with ok s cur nz v t parsed acc show ?thesis
      unfolding processSmartSms_def cur_def [symmetric] by (simp add: Let_def)
  next
    case (Some amt)
    then show ?thesis by simp
  qed
  then obtain amt where amt: "amount parsed = Some amt" by blast
  obtain tid dB where ins:
    "insertTransaction dA (savedInput d parsed uid sms acc amt) True = (tid, dB)"
    by (cases "insertTransaction dA (savedInput d parsed uid sms acc amt) True")
  from processSmartSms_run [OF cur [unfolded cur_def] nz v t parsed acc amt ins] ok
  have "d1 = dB" "transactionId r = Some tid" by auto
  with cur nz v t parsed acc amt ins show ?thesis
    unfolding cur_def by blast
qed

lemma savedInput_key:
  assumes "merchant_mapping d' = merchant_mapping d" "categories d' = categories d"
  shows "isDuplicate (savedInput d' parsed uid sms acc' amt)
       = isDuplicate (savedInput d parsed uid sms acc amt)"
  using assms
  by (simp add: savedInput_def isDuplicate_def fun_eq_iff
        getMerchantMapping_cong [OF assms(1)] autoCategorizeMerchant_cong [OF assms(2)])

text \<open>
  A message read a second time, by the same clock reading, adds no transaction: the second
  call succeeds with the id of the first and leaves the table of transactions as it was.
\<close>

lemma processSmartSms_twice:
  assumes ok: "processSmartSms nfkc now storedUser d sms sender userId smsTimestamp = (Inr r, d1)"
    and s: "success r"
  shows "\<exists>r' d2. processSmartSms nfkc now storedUser d1 sms sender userId smsTimestamp
             = (Inr r', d2) \<and>
           success r' \<and> transactionId r' = transactionId r \<and>
           transactions d2 = transactions d1"
proof -
  from processSmartSms_run_inv [OF ok s] obtain uid parsed acc dA amt tid where
    cur: "(case userId of None \<Rightarrow> storedUser
            | Some u \<Rightarrow> if u \<noteq> 0 then Some u else storedUser) = Some uid" and nz: "uid \<noteq> 0"
    and v: "isValid (validateTransactionSms sms sender)"
    and t: "isTransaction (validateTransactionSms sms sender)"
    and parsed: "parseExpenseWithRegex nfkc now sms (isKnownBankSender sender) smsTimestamp
              = Inr (Some parsed)"
    and acc: "resolveAccountId d (accountLast4 parsed) sender uid = (acc, dA)"
    and amt: "amount parsed = Some amt"
    and ins: "insertTransaction dA (savedInput d parsed uid sms acc amt) True = (tid, d1)"
    and tid: "transactionId r = Some tid"
    by blast
  obtain acc' dA' where
    acc': "resolveAccountId d1 (accountLast4 parsed) sender uid = (acc', dA')"
    by (cases "resolveAccountId d1 (accountLast4 parsed) sender uid")
  note pA = resolveAccountId_preserves [OF acc]
  note pI = insertTransaction_preserves [OF ins]
  note pA' = resolveAccountId_preserves [OF acc']
  from pA pI have same: "merchant_mapping d1 = merchant_mapping d" "categories d1 = categories d"
    by simp_all
  from pA' have tr: "transactions dA' = transactions d1" by simp
  have again: "insertTransaction dA' (savedInput d1 parsed uid sms acc' amt) True = (tid, dA')"
    by (rule insertTransaction_again [OF ins tr savedInput_key [OF same]])
  from processSmartSms_run [OF cur nz v t parsed acc' amt again] tid tr show ?thesis
    by auto
qed

section \<open>Subscription detection: three monthly payments\<close>
















text \<open>
  One calendar month is 31, 30 or 28 days here, and a day the next month lacks runs over
  into the month after.
\<close>

lemma calendar_month_examples:
  "calculateNextDate 330 ''2024-03-01'' Monthly = Inr ''2024-04-01''"
  "calculateNextDate 330 ''2024-04-15'' Monthly = Inr ''2024-05-15''"
  "calculateNextDate 330 ''2023-02-10'' Monthly = Inr ''2023-03-10''"
  "calculateNextDate 330 ''2024-01-31'' Monthly = Inr ''2024-03-02''"
  by code_simp+

end
